theory Spec2Isabelle
  imports Main "HOL-Library.Multiset" "HOL-Library.Sublist"
begin

section \<open>Working memory of agent-memory-server (working_memory.py)\<close>

text \<open>
  A shallow embedding of \<^verbatim>\<open>agent_memory_server/working_memory.py\<close>: the four entry
  points \<^verbatim>\<open>list_sessions\<close>, \<^verbatim>\<open>get_working_memory\<close>, \<^verbatim>\<open>set_working_memory\<close>,
  \<^verbatim>\<open>delete_working_memory\<close> and the helper
  \<^verbatim>\<open>_reconstruct_working_memory_from_long_term\<close>.

  Conventions of the embedding:
  \<^item> an exception is the \<open>Inl\<close> of a sum; \<open>except Exception\<close> is a case on that sum;
  \<^item> the Redis client is an explicit state \<open>redis\<close> that every command takes and returns;
    the state records each command sent, so that "no I/O" is a statement about it;
  \<^item> the \<open>logger\<close> is a list of entries returned next to the result;
  \<^item> \<open>datetime.now(UTC)\<close> and \<open>time.time()\<close> are a parameter \<open>now\<close> of the call;
  \<^item> the collaborators that are imported from other modules (\<open>Keys\<close>, \<open>settings\<close>,
    \<open>search_long_term_memories\<close>) are the fields of a parameter \<open>env\<close>.
\<close>

subsection \<open>Exceptions and log entries\<close>

datatype error =
    ValueError string
  | TypeError
  | AttributeError
  | JSONDecodeError
  | ModelValidationError
  | OverflowError
  | ConnectionError
  | ResponseError
  | SearchError

text \<open>One constructor per logging statement of the module, in source order.\<close>

datatype log_entry =
    Debug_no_working_memory string "string option" "string option"
  | Info_reconstructed_from_long_term string
  | Error_getting string error
  | Info_set_with_ttl string int
  | Info_set_no_ttl string
  | Error_setting string error
  | Info_deleted string
  | Error_deleting string error
  | Debug_no_message_memories string
  | Warning_skipping_malformed string string
  | Debug_no_valid_messages string
  | Info_reconstructed string nat
  | Error_reconstructing string error

text \<open>Sequencing of computations that may raise.\<close>

definition ebind :: "error + 'a \<Rightarrow> ('a \<Rightarrow> error + 'b) \<Rightarrow> error + 'b" where
  "ebind m f = (case m of Inl e \<Rightarrow> Inl e | Inr x \<Rightarrow> f x)"

fun emap :: "('a \<Rightarrow> error + 'b) \<Rightarrow> 'a list \<Rightarrow> error + 'b list" where
  "emap f [] = Inr []"
| "emap f (x # xs) = ebind (f x) (\<lambda>y. ebind (emap f xs) (\<lambda>ys. Inr (y # ys)))"

subsection \<open>Timestamps\<close>

text \<open>
  A \<open>datetime\<close> is an aware UTC instant with Python's microsecond resolution, kept as the
  number of microseconds since the Unix epoch.

  \<open>dt.timestamp()\<close> is a float: the microseconds since the epoch divided by \<open>10**6\<close>,
  rounded to the nearest double (53 bits, ties to even). \<open>int(...)\<close> then drops the
  fraction of that double. For \<open>a\<close> microseconds, \<open>binary_scale\<close> finds the \<open>k\<close> with
  \<open>2^52 \<le> a * 2^k / 10^6 < 2^53\<close>, so that the double is \<open>m / 2^k\<close> for the integer \<open>m\<close>
  nearest to \<open>a * 2^k / 10^6\<close>. This is the double of every instant a \<open>datetime\<close> holds
  (fewer than \<open>2^38\<close> seconds from the epoch).
\<close>

type_synonym datetime = int

text \<open>The integer nearest to \<open>n / d\<close> for \<open>d > 0\<close>, a tie going to the even one.\<close>

definition round_half_even :: "int \<Rightarrow> int \<Rightarrow> int" where
  "round_half_even n d =
     (let q = n div d; r = n mod d
      in if 2 * r < d then q else if d < 2 * r then q + 1 else if even q then q else q + 1)"

text \<open>The least \<open>k\<close> from \<open>k\<close> on with \<open>2^52 * 10^6 \<le> a * 2^k\<close>, tried for \<open>fuel\<close> values.\<close>

fun binary_scale :: "nat \<Rightarrow> nat \<Rightarrow> int \<Rightarrow> nat" where
  "binary_scale 0 k a = k"
| "binary_scale (Suc fuel) k a =
     (if 2 ^ 52 * 1000000 \<le> a * 2 ^ k then k else binary_scale fuel (Suc k) a)"

text \<open>\<open>int(dt.timestamp())\<close>.\<close>

definition timestamp_int :: "datetime \<Rightarrow> int" where
  "timestamp_int dt =
     (let a = \<bar>dt\<bar>; k = binary_scale 128 0 a; m = round_half_even (a * 2 ^ k) 1000000
      in sgn dt * (m div 2 ^ k))"

text \<open>
  \<open>datetime.fromtimestamp(s, UTC)\<close> accepts the whole seconds of the years 1 to 9999
  and raises outside.
\<close>

definition min_timestamp :: int where
  "min_timestamp = - 62135596800"

definition max_timestamp :: int where
  "max_timestamp = 253402300799"

definition fromtimestamp :: "int \<Rightarrow> error + datetime" where
  "fromtimestamp s =
     (if min_timestamp \<le> s \<and> s \<le> max_timestamp then Inr (s * 1000000) else Inl OverflowError)"

text \<open>The instants a Python \<open>datetime\<close> can hold.\<close>

definition datetime_ok :: "datetime \<Rightarrow> bool" where
  "datetime_ok dt = (min_timestamp * 1000000 \<le> dt \<and> dt < (max_timestamp + 1) * 1000000)"

subsection \<open>JSON values and the stored bytes\<close>

text \<open>
  The values \<open>json.loads\<close> returns. \<open>JIso t\<close> is the JSON string that holds the ISO-8601
  text of the instant \<open>t\<close>, as \<open>model_dump(mode="json")\<close> writes a datetime field; it is
  kept parsed. Floating-point numbers are left out: the module writes none.
\<close>

datatype json =
    JNull
  | JBool bool
  | JInt int
  | JStr string
  | JIso datetime
  | JArr "json list"
  | JObj "(string \<times> json) list"

text \<open>
  What a string key of Redis holds: bytes that \<open>json.dumps\<close> produced from a value, or
  other bytes (which \<open>json.loads\<close> rejects; the empty byte string is one of them).
\<close>

datatype payload = Encoded json | Raw string

definition json_dumps :: "json \<Rightarrow> payload" where
  "json_dumps j = Encoded j"

fun json_loads :: "payload \<Rightarrow> error + json" where
  "json_loads (Encoded j) = Inr j"
| "json_loads (Raw s) = Inl JSONDecodeError"

text \<open>\<open>not data\<close> for the reply of \<open>GET\<close>: no value, or empty bytes.\<close>

fun not_data :: "payload option \<Rightarrow> bool" where
  "not_data None = True"
| "not_data (Some (Raw s)) = (s = [])"
| "not_data (Some (Encoded j)) = False"

text \<open>Python's truth value of a decoded JSON value.\<close>

fun truthy :: "json \<Rightarrow> bool" where
  "truthy JNull = False"
| "truthy (JBool b) = b"
| "truthy (JInt n) = (n \<noteq> 0)"
| "truthy (JStr s) = (s \<noteq> [])"
| "truthy (JIso t) = True"
| "truthy (JArr xs) = (xs \<noteq> [])"
| "truthy (JObj kvs) = (kvs \<noteq> [])"

text \<open>\<open>d.get(k)\<close>: raises \<open>AttributeError\<close> when \<open>d\<close> is not a dict.\<close>

fun dict_get :: "json \<Rightarrow> string \<Rightarrow> error + json option" where
  "dict_get (JObj kvs) k = Inr (map_of kvs k)"
| "dict_get _ k = Inl AttributeError"

definition dict_get_default :: "json \<Rightarrow> string \<Rightarrow> json \<Rightarrow> error + json" where
  "dict_get_default d k dflt =
     ebind (dict_get d k) (\<lambda>v. Inr (case v of None \<Rightarrow> dflt | Some x \<Rightarrow> x))"

text \<open>
  \<open>for x in v\<close>: a list yields its items, a string its characters, a dict its keys;
  anything else is not iterable.
\<close>

fun iterate :: "json \<Rightarrow> error + json list" where
  "iterate (JArr xs) = Inr xs"
| "iterate (JStr s) = Inr (map (\<lambda>c. JStr [c]) s)"
| "iterate (JObj kvs) = Inr (map JStr (remdups (map fst kvs)))"
| "iterate _ = Inl TypeError"

subsection \<open>The data model\<close>

text \<open>
  Modelled from the spec: the classes \<open>MemoryMessage\<close>, \<open>MemoryRecord\<close>,
  \<open>MemoryStrategyConfig\<close> and \<open>WorkingMemory\<close> of \<open>agent_memory_server.models\<close>, which
  is not among the source files. The fields are those of section 3 of the specification
  (a message is \<open>{id, role, content, created_at, persisted_at?}\<close>, a long-term record is
  \<open>{id, text, created_at, persisted_at?}\<close>); the fields of the working memory are the
  keyword arguments of the constructor call in \<open>get_working_memory\<close>.
\<close>

record MemoryMessage =
  msg_id :: string
  msg_role :: string
  msg_content :: string
  msg_created_at :: datetime
  msg_persisted_at :: "datetime option"

record MemoryRecord =
  mem_id :: string
  mem_text :: string
  mem_created_at :: datetime
  mem_persisted_at :: "datetime option"

record MemoryStrategyConfig =
  strategy :: string
  config :: "(string \<times> json) list"

record WorkingMemory =
  wm_messages :: "MemoryMessage list"
  wm_memories :: "MemoryRecord list"
  wm_context :: "string option"
  wm_user_id :: "string option"
  wm_tokens :: int
  wm_session_id :: string
  wm_namespace :: "string option"
  wm_ttl_seconds :: "int option"
  wm_data :: "(string \<times> json) list"
  wm_long_term_memory_strategy :: MemoryStrategyConfig
  wm_last_accessed :: datetime
  wm_created_at :: datetime
  wm_updated_at :: datetime

text \<open>\<open>MemoryStrategyConfig()\<close>: the discrete strategy.\<close>

definition default_strategy :: MemoryStrategyConfig where
  "default_strategy = \<lparr>strategy = ''discrete'', config = []\<rparr>"

subsection \<open>The Redis client\<close>

datatype redis_cmd =
    GET string
  | SET string payload
  | SETEX string int payload
  | DEL string
  | ZCARD string
  | ZRANGE string int int

text \<open>
  The state behind the client: whether the server answers (\<open>up\<close>; when it does not,
  every command raises \<open>ConnectionError\<close>), the string keys with their time to live, the
  sorted sets as their members in rank order, and the commands sent so far.
\<close>

record redis =
  up :: bool
  strings :: "string \<Rightarrow> (payload \<times> int option) option"
  zsets :: "string \<Rightarrow> string list"
  sent :: "redis_cmd list"

definition send :: "redis \<Rightarrow> redis_cmd list \<Rightarrow> redis" where
  "send r cs = r\<lparr>sent := sent r @ cs\<rparr>"

definition redis_get :: "redis \<Rightarrow> string \<Rightarrow> (error + payload option) \<times> redis" where
  "redis_get r k =
     (if up r then (Inr (map_option fst (strings r k)), send r [GET k])
      else (Inl ConnectionError, send r [GET k]))"

definition redis_set :: "redis \<Rightarrow> string \<Rightarrow> payload \<Rightarrow> (error + unit) \<times> redis" where
  "redis_set r k v =
     (if up r then (Inr (), send (r\<lparr>strings := (strings r)(k \<mapsto> (v, None))\<rparr>) [SET k v])
      else (Inl ConnectionError, send r [SET k v]))"

text \<open>\<open>SETEX\<close> rejects a time to live that is not positive.\<close>

definition redis_setex :: "redis \<Rightarrow> string \<Rightarrow> int \<Rightarrow> payload \<Rightarrow> (error + unit) \<times> redis" where
  "redis_setex r k ttl v =
     (if \<not> up r then (Inl ConnectionError, send r [SETEX k ttl v])
      else if ttl \<le> 0 then (Inl ResponseError, send r [SETEX k ttl v])
      else (Inr (), send (r\<lparr>strings := (strings r)(k \<mapsto> (v, Some ttl))\<rparr>) [SETEX k ttl v]))"

definition redis_delete :: "redis \<Rightarrow> string \<Rightarrow> (error + unit) \<times> redis" where
  "redis_delete r k =
     (if up r then (Inr (), send (r\<lparr>strings := (strings r)(k := None)\<rparr>) [DEL k])
      else (Inl ConnectionError, send r [DEL k]))"

text \<open>
  \<open>ZRANGE key start stop\<close> by rank, as Redis computes it: both ends are inclusive, a
  negative index counts from the end of the set (\<open>-1\<close> is the last member), the start is
  clamped to 0 and the stop to the last rank.
\<close>

definition zrange :: "string list \<Rightarrow> int \<Rightarrow> int \<Rightarrow> string list" where
  "zrange xs start stop =
     (let llen = int (length xs);
          start1 = (if start < 0 then llen + start else start);
          stop1 = (if stop < 0 then llen + stop else stop);
          start2 = (if start1 < 0 then 0 else start1)
      in if start2 > stop1 \<or> start2 \<ge> llen then []
         else let stop2 = (if stop1 \<ge> llen then llen - 1 else stop1)
              in take (nat (stop2 - start2 + 1)) (drop (nat start2) xs))"

text \<open>The pipeline of \<open>list_sessions\<close>: \<open>ZCARD\<close> and \<open>ZRANGE\<close> in one round trip.\<close>

definition redis_zcard_zrange ::
  "redis \<Rightarrow> string \<Rightarrow> int \<Rightarrow> int \<Rightarrow> (error + int \<times> string list) \<times> redis" where
  "redis_zcard_zrange r k start stop =
     (if up r
      then (Inr (int (length (zsets r k)), zrange (zsets r k) start stop),
            send r [ZCARD k, ZRANGE k start stop])
      else (Inl ConnectionError, send r [ZCARD k, ZRANGE k start stop]))"

subsection \<open>Collaborators\<close>

text \<open>The arguments of the call of \<open>search_long_term_memories\<close>.\<close>

record search_query =
  q_text :: string
  q_session_id :: string
  q_user_id :: "string option"
  q_namespace :: "string option"
  q_memory_type :: string
  q_limit :: int
  q_offset :: int

text \<open>
  \<open>Keys.working_memory_key\<close>, \<open>Keys.sessions_key\<close>,
  \<open>settings.index_all_messages_in_long_term_memory\<close> and \<open>search_long_term_memories\<close>
  (which returns the \<open>memories\<close> of its result, or raises); and \<open>str.lower\<close>, the
  lower-casing of Python, whose Unicode table is not part of the source: every property
  below holds whatever function it is.
\<close>

record env =
  working_memory_key :: "string \<Rightarrow> string option \<Rightarrow> string option \<Rightarrow> string"
  sessions_key :: "string option \<Rightarrow> string"
  index_all_messages_in_long_term_memory :: bool
  search_long_term_memories :: "search_query \<Rightarrow> error + MemoryRecord list"
  str_lower :: "string \<Rightarrow> string"

subsection \<open>list_sessions\<close>

definition list_sessions ::
  "env \<Rightarrow> redis \<Rightarrow> int \<Rightarrow> int \<Rightarrow> string option \<Rightarrow> string option
     \<Rightarrow> (error + int \<times> string list) \<times> redis" where
  "list_sessions e r limit offset namespace user_id =
     (let start = offset;
          end1 = offset + limit - 1;
          key = sessions_key e namespace
      in redis_zcard_zrange r key start end1)"

subsection \<open>Strings and slices of Python\<close>

text \<open>\<open>sep in s\<close>: \<open>sep\<close> occurs in \<open>s\<close> as a contiguous run.\<close>

fun str_contains :: "string \<Rightarrow> string \<Rightarrow> bool" where
  "str_contains sep [] = (sep = [])"
| "str_contains sep (c # cs) = (prefix sep (c # cs) \<or> str_contains sep cs)"

text \<open>The text before and after the first occurrence of \<open>sep\<close>, when there is one.\<close>

fun split_once :: "string \<Rightarrow> string \<Rightarrow> (string \<times> string) option" where
  "split_once sep [] = (if sep = [] then Some ([], []) else None)"
| "split_once sep (c # cs) =
     (if prefix sep (c # cs) then Some ([], drop (length sep) (c # cs))
      else map_option (\<lambda>(a, b). (c # a, b)) (split_once sep cs))"

text \<open>\<open>s.split(sep, 1)\<close> for a non-empty \<open>sep\<close>: one piece, or two.\<close>

definition str_split1 :: "string \<Rightarrow> string \<Rightarrow> string list" where
  "str_split1 sep s = (case split_once sep s of None \<Rightarrow> [s] | Some (a, b) \<Rightarrow> [a, b])"

text \<open>
  The bound of a slice: a negative index counts from the end, and every index is clamped
  to the list. \<open>slice_from xs i\<close> is \<open>xs[i:]\<close>, \<open>slice_to xs i\<close> is \<open>xs[:i]\<close>.
\<close>

definition slice_index :: "'a list \<Rightarrow> int \<Rightarrow> nat" where
  "slice_index xs i =
     (let n = int (length xs) in nat (if i < 0 then max (n + i) 0 else min i n))"

definition slice_from :: "'a list \<Rightarrow> int \<Rightarrow> 'a list" where
  "slice_from xs i = drop (slice_index xs i) xs"

definition slice_to :: "'a list \<Rightarrow> int \<Rightarrow> 'a list" where
  "slice_to xs i = take (slice_index xs i) xs"

text \<open>
  \<open>xs.sort(key=f)\<close> is stable; \<open>xs.sort(key=f, reverse=True)\<close> keeps the order of equal
  keys too, which CPython gets by reversing, sorting and reversing again.
\<close>

definition sort_by :: "('a \<Rightarrow> int) \<Rightarrow> 'a list \<Rightarrow> 'a list" where
  "sort_by f xs = sort_key f xs"

definition sort_by_reverse :: "('a \<Rightarrow> int) \<Rightarrow> 'a list \<Rightarrow> 'a list" where
  "sort_by_reverse f xs = rev (sort_key f (rev xs))"

subsection \<open>Serialisation and validation of the models\<close>

definition opt_str_json :: "string option \<Rightarrow> json" where
  "opt_str_json v = (case v of None \<Rightarrow> JNull | Some s \<Rightarrow> JStr s)"

definition opt_int_json :: "int option \<Rightarrow> json" where
  "opt_int_json v = (case v of None \<Rightarrow> JNull | Some n \<Rightarrow> JInt n)"

definition opt_iso_json :: "datetime option \<Rightarrow> json" where
  "opt_iso_json v = (case v of None \<Rightarrow> JNull | Some t \<Rightarrow> JIso t)"

text \<open>
  Modelled from the spec: \<open>message.model_dump(mode="json")\<close>,
  \<open>memory.model_dump(mode="json")\<close> and \<open>long_term_memory_strategy.model_dump()\<close> of the
  classes of \<open>agent_memory_server.models\<close>; a dict of the fields, a datetime as its
  ISO-8601 string.
\<close>

definition message_dump :: "MemoryMessage \<Rightarrow> json" where
  "message_dump m =
     JObj [(''id'', JStr (msg_id m)), (''role'', JStr (msg_role m)),
           (''content'', JStr (msg_content m)), (''created_at'', JIso (msg_created_at m)),
           (''persisted_at'', opt_iso_json (msg_persisted_at m))]"

definition memory_dump :: "MemoryRecord \<Rightarrow> json" where
  "memory_dump m =
     JObj [(''id'', JStr (mem_id m)), (''text'', JStr (mem_text m)),
           (''created_at'', JIso (mem_created_at m)),
           (''persisted_at'', opt_iso_json (mem_persisted_at m))]"

definition strategy_dump :: "MemoryStrategyConfig \<Rightarrow> json" where
  "strategy_dump s = JObj [(''strategy'', JStr (strategy s)), (''config'', JObj (config s))]"

text \<open>
  Modelled from the spec: the validation the constructors of \<open>agent_memory_server.models\<close>
  run on their keyword arguments. A field takes a value of its own type and nothing
  else; an optional field also takes \<open>None\<close> or its absence.
\<close>

fun kwargs :: "json \<Rightarrow> error + (string \<times> json) list" where
  "kwargs (JObj kvs) = Inr kvs"
| "kwargs _ = Inl TypeError"

fun str_field :: "json option \<Rightarrow> error + string" where
  "str_field (Some (JStr s)) = Inr s"
| "str_field _ = Inl ModelValidationError"

fun opt_str_field :: "json option \<Rightarrow> error + string option" where
  "opt_str_field None = Inr None"
| "opt_str_field (Some JNull) = Inr None"
| "opt_str_field (Some (JStr s)) = Inr (Some s)"
| "opt_str_field _ = Inl ModelValidationError"

fun int_field :: "json option \<Rightarrow> error + int" where
  "int_field (Some (JInt n)) = Inr n"
| "int_field _ = Inl ModelValidationError"

fun opt_int_field :: "json option \<Rightarrow> error + int option" where
  "opt_int_field None = Inr None"
| "opt_int_field (Some JNull) = Inr None"
| "opt_int_field (Some (JInt n)) = Inr (Some n)"
| "opt_int_field _ = Inl ModelValidationError"

fun iso_field :: "json option \<Rightarrow> error + datetime" where
  "iso_field (Some (JIso t)) = Inr t"
| "iso_field _ = Inl ModelValidationError"

fun opt_iso_field :: "json option \<Rightarrow> error + datetime option" where
  "opt_iso_field None = Inr None"
| "opt_iso_field (Some JNull) = Inr None"
| "opt_iso_field (Some (JIso t)) = Inr (Some t)"
| "opt_iso_field _ = Inl ModelValidationError"

fun dict_field :: "json option \<Rightarrow> error + (string \<times> json) list" where
  "dict_field (Some (JObj kvs)) = Inr kvs"
| "dict_field _ = Inl ModelValidationError"

text \<open>\<open>MemoryMessage(**message_data)\<close>.\<close>

definition MemoryMessage_new :: "json \<Rightarrow> error + MemoryMessage" where
  "MemoryMessage_new message_data =
     ebind (kwargs message_data) (\<lambda>kw.
     ebind (str_field (map_of kw ''id'')) (\<lambda>i.
     ebind (str_field (map_of kw ''role'')) (\<lambda>ro.
     ebind (str_field (map_of kw ''content'')) (\<lambda>co.
     ebind (iso_field (map_of kw ''created_at'')) (\<lambda>cr.
     ebind (opt_iso_field (map_of kw ''persisted_at'')) (\<lambda>pe.
     Inr \<lparr>msg_id = i, msg_role = ro, msg_content = co, msg_created_at = cr,
          msg_persisted_at = pe\<rparr>))))))"

text \<open>\<open>MemoryRecord(**memory_data)\<close>.\<close>

definition MemoryRecord_new :: "json \<Rightarrow> error + MemoryRecord" where
  "MemoryRecord_new memory_data =
     ebind (kwargs memory_data) (\<lambda>kw.
     ebind (str_field (map_of kw ''id'')) (\<lambda>i.
     ebind (str_field (map_of kw ''text'')) (\<lambda>tx.
     ebind (iso_field (map_of kw ''created_at'')) (\<lambda>cr.
     ebind (opt_iso_field (map_of kw ''persisted_at'')) (\<lambda>pe.
     Inr \<lparr>mem_id = i, mem_text = tx, mem_created_at = cr, mem_persisted_at = pe\<rparr>)))))"

text \<open>\<open>MemoryStrategyConfig(**strategy_data)\<close>; both fields have a default.\<close>

definition MemoryStrategyConfig_new :: "json \<Rightarrow> error + MemoryStrategyConfig" where
  "MemoryStrategyConfig_new strategy_data =
     ebind (kwargs strategy_data) (\<lambda>kw.
     ebind (case map_of kw ''strategy'' of
              None \<Rightarrow> Inr (strategy default_strategy) | Some v \<Rightarrow> str_field (Some v)) (\<lambda>st.
     ebind (case map_of kw ''config'' of
              None \<Rightarrow> Inr (config default_strategy) | Some v \<Rightarrow> dict_field (Some v)) (\<lambda>cf.
     Inr \<lparr>strategy = st, config = cf\<rparr>)))"

text \<open>
  \<open>WorkingMemory(...)\<close> as \<open>get_working_memory\<close> calls it: the lists, the two scoping
  arguments, the strategy and the three timestamps are built already; the five values
  read from the stored dict are validated.
\<close>

definition WorkingMemory_new ::
  "MemoryMessage list \<Rightarrow> MemoryRecord list \<Rightarrow> json option \<Rightarrow> json option \<Rightarrow> json
     \<Rightarrow> string \<Rightarrow> string option \<Rightarrow> json option \<Rightarrow> json \<Rightarrow> MemoryStrategyConfig
     \<Rightarrow> datetime \<Rightarrow> datetime \<Rightarrow> datetime \<Rightarrow> error + WorkingMemory" where
  "WorkingMemory_new messages memories context user_id tokens session_id namespace
       ttl_seconds data long_term_memory_strategy last_accessed created_at updated_at =
     ebind (opt_str_field context) (\<lambda>cx.
     ebind (opt_str_field user_id) (\<lambda>ui.
     ebind (int_field (Some tokens)) (\<lambda>tk.
     ebind (opt_int_field ttl_seconds) (\<lambda>tt.
     ebind (dict_field (Some data)) (\<lambda>dt.
     Inr \<lparr>wm_messages = messages, wm_memories = memories, wm_context = cx,
          wm_user_id = ui, wm_tokens = tk, wm_session_id = session_id,
          wm_namespace = namespace, wm_ttl_seconds = tt, wm_data = dt,
          wm_long_term_memory_strategy = long_term_memory_strategy,
          wm_last_accessed = last_accessed, wm_created_at = created_at,
          wm_updated_at = updated_at\<rparr>)))))"

subsection \<open>set_working_memory\<close>

text \<open>The loop that checks the ids: it raises at the first record whose id is empty.\<close>

fun check_memory_ids :: "MemoryRecord list \<Rightarrow> error + unit" where
  "check_memory_ids [] = Inr ()"
| "check_memory_ids (memory # rest) =
     (if mem_id memory = []
      then Inl (ValueError ''All memory records in working memory must have an ID'')
      else check_memory_ids rest)"

text \<open>The dict that is written, for a document whose \<open>updated_at\<close> is stamped already.\<close>

definition wire_form :: "WorkingMemory \<Rightarrow> json" where
  "wire_form working_memory =
     JObj [(''messages'', JArr (map message_dump (wm_messages working_memory))),
           (''memories'', JArr (map memory_dump (wm_memories working_memory))),
           (''context'', opt_str_json (wm_context working_memory)),
           (''user_id'', opt_str_json (wm_user_id working_memory)),
           (''tokens'', JInt (wm_tokens working_memory)),
           (''session_id'', JStr (wm_session_id working_memory)),
           (''namespace'', opt_str_json (wm_namespace working_memory)),
           (''ttl_seconds'', opt_int_json (wm_ttl_seconds working_memory)),
           (''data'', JObj (if wm_data working_memory \<noteq> [] then wm_data working_memory else [])),
           (''long_term_memory_strategy'',
              strategy_dump (wm_long_term_memory_strategy working_memory)),
           (''last_accessed'', JInt (timestamp_int (wm_last_accessed working_memory))),
           (''created_at'', JInt (timestamp_int (wm_created_at working_memory))),
           (''updated_at'', JInt (timestamp_int (wm_updated_at working_memory)))]"

definition set_working_memory ::
  "env \<Rightarrow> redis \<Rightarrow> datetime \<Rightarrow> WorkingMemory \<Rightarrow> (error + unit) \<times> redis \<times> log_entry list" where
  "set_working_memory e r now working_memory =
     (case check_memory_ids (wm_memories working_memory) of
        Inl err \<Rightarrow> (Inl err, r, [])
      | Inr _ \<Rightarrow>
          (let key = working_memory_key e (wm_session_id working_memory)
                       (wm_user_id working_memory) (wm_namespace working_memory);
               stamped = working_memory\<lparr>wm_updated_at := now\<rparr>;
               data = wire_form stamped
           in case wm_ttl_seconds stamped of
                Some ttl \<Rightarrow>
                  (case redis_setex r key ttl (json_dumps data) of
                     (Inl err, r') \<Rightarrow>
                       (Inl err, r', [Error_setting (wm_session_id stamped) err])
                   | (Inr _, r') \<Rightarrow> (Inr (), r', [Info_set_with_ttl (wm_session_id stamped) ttl]))
              | None \<Rightarrow>
                  (case redis_set r key (json_dumps data) of
                     (Inl err, r') \<Rightarrow>
                       (Inl err, r', [Error_setting (wm_session_id stamped) err])
                   | (Inr _, r') \<Rightarrow> (Inr (), r', [Info_set_no_ttl (wm_session_id stamped)]))))"

subsection \<open>delete_working_memory\<close>

definition delete_working_memory ::
  "env \<Rightarrow> redis \<Rightarrow> string \<Rightarrow> string option \<Rightarrow> string option
     \<Rightarrow> (error + unit) \<times> redis \<times> log_entry list" where
  "delete_working_memory e r session_id user_id namespace =
     (let key = working_memory_key e session_id user_id namespace
      in case redis_delete r key of
           (Inl err, r') \<Rightarrow> (Inl err, r', [Error_deleting session_id err])
         | (Inr _, r') \<Rightarrow> (Inr (), r', [Info_deleted session_id]))"

subsection \<open>Reconstruction from long-term memory\<close>

text \<open>
  The loop over \<open>results.memories\<close>. \<open>role, content = text.split(": ", 1)\<close> raises
  \<open>ValueError\<close> unless the split has two pieces.
\<close>

fun convert_memories ::
  "(string \<Rightarrow> string) \<Rightarrow> MemoryRecord list \<Rightarrow> (error + MemoryMessage list) \<times> log_entry list" where
  "convert_memories lower [] = (Inr [], [])"
| "convert_memories lower (memory # rest) =
     (let text = mem_text memory in
      if str_contains '': '' text
      then (case str_split1 '': '' text of
              [role, content] \<Rightarrow>
                (let message = \<lparr>msg_id = mem_id memory, msg_role = lower role,
                                msg_content = content, msg_created_at = mem_created_at memory,
                                msg_persisted_at = mem_persisted_at memory\<rparr>
                 in case convert_memories lower rest of
                      (Inl err, log) \<Rightarrow> (Inl err, log)
                    | (Inr messages, log) \<Rightarrow> (Inr (message # messages), log))
            | _ \<Rightarrow> (Inl (ValueError ''not enough values to unpack''), []))
      else (case convert_memories lower rest of
              (res, log) \<Rightarrow> (res, Warning_skipping_malformed (mem_id memory) text # log)))"

text \<open>What one pass of the loop body appends for a record, if anything.\<close>

definition message_of :: "(string \<Rightarrow> string) \<Rightarrow> MemoryRecord \<Rightarrow> MemoryMessage option" where
  "message_of lower memory =
     map_option (\<lambda>(role, content).
        \<lparr>msg_id = mem_id memory, msg_role = lower role, msg_content = content,
         msg_created_at = mem_created_at memory, msg_persisted_at = mem_persisted_at memory\<rparr>)
       (split_once '': '' (mem_text memory))"

text \<open>The truth value of an optional string: \<open>None\<close> and the empty string are false.\<close>

definition str_given :: "string option \<Rightarrow> bool" where
  "str_given v = (case v of None \<Rightarrow> False | Some s \<Rightarrow> s \<noteq> [])"

text \<open>
  Sorting, truncation and the reversal back to chronological order. The limit counts
  when it is given and not zero (its truth value).
\<close>

definition order_messages :: "int option \<Rightarrow> MemoryMessage list \<Rightarrow> MemoryMessage list" where
  "order_messages recent_messages_limit messages =
     (let sorted = sort_by_reverse msg_created_at messages;
          kept = (case recent_messages_limit of
                    None \<Rightarrow> sorted
                  | Some n \<Rightarrow>
                      if n \<noteq> 0 \<and> int (length sorted) > n then slice_to sorted n
                      else sorted)
      in rev kept)"

text \<open>The filters and the cap of the search: a filter is set only for a non-empty value.\<close>

definition search_args :: "string \<Rightarrow> string option \<Rightarrow> string option \<Rightarrow> int option \<Rightarrow> search_query" where
  "search_args session_id user_id namespace recent_messages_limit =
     (let user_filter = (if str_given user_id then user_id else None);
          namespace_filter = (if str_given namespace then namespace else None);
          search_limit = (case recent_messages_limit of
                            None \<Rightarrow> 1000
                          | Some n \<Rightarrow> if n \<noteq> 0 then n else 1000)
      in \<lparr>q_text = [], q_session_id = session_id, q_user_id = user_filter,
          q_namespace = namespace_filter, q_memory_type = ''message'',
          q_limit = search_limit, q_offset = 0\<rparr>)"

text \<open>The body of the \<open>try\<close>: an exception leaves it as \<open>Inl\<close>.\<close>

definition reconstruct_try ::
  "env \<Rightarrow> datetime \<Rightarrow> string \<Rightarrow> string option \<Rightarrow> string option \<Rightarrow> int option
     \<Rightarrow> (error + WorkingMemory option) \<times> log_entry list" where
  "reconstruct_try e now session_id user_id namespace recent_messages_limit =
     (case search_long_term_memories e
             (search_args session_id user_id namespace recent_messages_limit) of
           Inl err \<Rightarrow> (Inl err, [])
         | Inr results \<Rightarrow>
             if results = [] then (Inr None, [Debug_no_message_memories session_id])
             else (case convert_memories (str_lower e) results of
                     (Inl err, log) \<Rightarrow> (Inl err, log)
                   | (Inr parsed, log) \<Rightarrow>
                       if parsed = [] then (Inr None, log @ [Debug_no_valid_messages session_id])
                       else (let messages = order_messages recent_messages_limit parsed;
                                 created = (case messages of
                                              [] \<Rightarrow> now
                                            | m # _ \<Rightarrow> (case msg_persisted_at m of
                                                          Some p \<Rightarrow> p | None \<Rightarrow> now))
                             in (Inr (Some
                                   \<lparr>wm_messages = messages, wm_memories = [],
                                    wm_context = Some [], wm_user_id = user_id, wm_tokens = 0,
                                    wm_session_id = session_id, wm_namespace = namespace,
                                    wm_ttl_seconds = None, wm_data = [],
                                    wm_long_term_memory_strategy = default_strategy,
                                    wm_last_accessed = now, wm_created_at = created,
                                    wm_updated_at = now\<rparr>),
                                 log @ [Info_reconstructed session_id (length messages)]))))"

text \<open>The function with its \<open>except Exception\<close>: log, and return \<open>None\<close>.\<close>

definition reconstruct_working_memory_from_long_term ::
  "env \<Rightarrow> datetime \<Rightarrow> string \<Rightarrow> string option \<Rightarrow> string option \<Rightarrow> int option
     \<Rightarrow> (error + WorkingMemory option) \<times> log_entry list" where
  "reconstruct_working_memory_from_long_term e now session_id user_id namespace
       recent_messages_limit =
     (case reconstruct_try e now session_id user_id namespace recent_messages_limit of
        (Inl err, log) \<Rightarrow> (Inr None, log @ [Error_reconstructing session_id err])
      | (Inr res, log) \<Rightarrow> (Inr res, log))"

subsection \<open>get_working_memory\<close>

definition load_memories :: "json \<Rightarrow> error + MemoryRecord list" where
  "load_memories working_memory_data =
     ebind (dict_get_default working_memory_data ''memories'' (JArr [])) (\<lambda>v.
     ebind (iterate v) (emap MemoryRecord_new))"

definition load_messages :: "json \<Rightarrow> error + MemoryMessage list" where
  "load_messages working_memory_data =
     ebind (dict_get_default working_memory_data ''messages'' (JArr [])) (\<lambda>v.
     ebind (iterate v) (emap MemoryMessage_new))"

text \<open>The in-memory slice: taken only for a limit that is given and positive.\<close>

definition recent_messages :: "int option \<Rightarrow> MemoryMessage list \<Rightarrow> MemoryMessage list" where
  "recent_messages recent_messages_limit messages =
     (case recent_messages_limit of
        None \<Rightarrow> messages
      | Some n \<Rightarrow>
          if n > 0 then slice_from (sort_by msg_created_at messages) (- n) else messages)"

definition load_strategy :: "json \<Rightarrow> error + MemoryStrategyConfig" where
  "load_strategy working_memory_data =
     ebind (dict_get working_memory_data ''long_term_memory_strategy'') (\<lambda>strategy_data.
     case strategy_data of
       None \<Rightarrow> Inr default_strategy
     | Some v \<Rightarrow> if truthy v then MemoryStrategyConfig_new v else Inr default_strategy)"

text \<open>
  \<open>datetime.fromtimestamp(working_memory_data.get(k, int(time.time())), UTC)\<close>; a JSON
  boolean is an integer of Python, anything else that is not a number raises.
\<close>

definition load_timestamp :: "json \<Rightarrow> string \<Rightarrow> datetime \<Rightarrow> error + datetime" where
  "load_timestamp working_memory_data k now =
     ebind (dict_get_default working_memory_data k (JInt (timestamp_int now))) (\<lambda>v.
     case v of
       JInt n \<Rightarrow> fromtimestamp n
     | JBool b \<Rightarrow> fromtimestamp (if b then 1 else 0)
     | _ \<Rightarrow> Inl TypeError)"

text \<open>\<open>working_memory_data.get("data") or {}\<close>.\<close>

definition data_or_empty :: "json option \<Rightarrow> json" where
  "data_or_empty v = (case v of None \<Rightarrow> JObj [] | Some x \<Rightarrow> if truthy x then x else JObj [])"

text \<open>From \<open>json.loads\<close> to the \<open>return WorkingMemory(...)\<close>.\<close>

definition parse_working_memory ::
  "datetime \<Rightarrow> string \<Rightarrow> string option \<Rightarrow> int option \<Rightarrow> payload \<Rightarrow> error + WorkingMemory" where
  "parse_working_memory now session_id namespace recent_messages_limit data =
     ebind (json_loads data) (\<lambda>working_memory_data.
     ebind (load_memories working_memory_data) (\<lambda>memories.
     ebind (load_messages working_memory_data) (\<lambda>loaded.
     let messages = recent_messages recent_messages_limit loaded in
     ebind (load_strategy working_memory_data) (\<lambda>long_term_memory_strategy.
     ebind (dict_get working_memory_data ''context'') (\<lambda>context.
     ebind (dict_get working_memory_data ''user_id'') (\<lambda>user_id.
     ebind (dict_get_default working_memory_data ''tokens'' (JInt 0)) (\<lambda>tokens.
     ebind (dict_get working_memory_data ''ttl_seconds'') (\<lambda>ttl_seconds.
     ebind (dict_get working_memory_data ''data'') (\<lambda>stored_data.
     ebind (load_timestamp working_memory_data ''last_accessed'' now) (\<lambda>last_accessed.
     ebind (load_timestamp working_memory_data ''created_at'' now) (\<lambda>created_at.
     ebind (load_timestamp working_memory_data ''updated_at'' now) (\<lambda>updated_at.
     WorkingMemory_new messages memories context user_id tokens session_id namespace
       ttl_seconds (data_or_empty stored_data) long_term_memory_strategy
       last_accessed created_at updated_at))))))))))))"

text \<open>The branch taken when the key holds nothing.\<close>

definition on_miss ::
  "env \<Rightarrow> datetime \<Rightarrow> string \<Rightarrow> string option \<Rightarrow> string option \<Rightarrow> int option
     \<Rightarrow> (error + WorkingMemory option) \<times> log_entry list" where
  "on_miss e now session_id user_id namespace recent_messages_limit =
     (let log = [Debug_no_working_memory session_id user_id namespace] in
      if index_all_messages_in_long_term_memory e
      then (case reconstruct_working_memory_from_long_term e now session_id user_id
                   namespace recent_messages_limit of
              (Inl err, log2) \<Rightarrow> (Inl err, log @ log2)
            | (Inr (Some reconstructed), log2) \<Rightarrow>
                (Inr (Some reconstructed),
                 log @ log2 @ [Info_reconstructed_from_long_term session_id])
            | (Inr None, log2) \<Rightarrow> (Inr None, log @ log2))
      else (Inr None, log))"

text \<open>The body of the \<open>try\<close> of \<open>get_working_memory\<close>.\<close>

definition get_working_memory_try ::
  "env \<Rightarrow> redis \<Rightarrow> datetime \<Rightarrow> string \<Rightarrow> string option \<Rightarrow> string option \<Rightarrow> int option
     \<Rightarrow> (error + WorkingMemory option) \<times> redis \<times> log_entry list" where
  "get_working_memory_try e r now session_id user_id namespace recent_messages_limit =
     (let key = working_memory_key e session_id user_id namespace
      in case redis_get r key of
           (Inl err, r') \<Rightarrow> (Inl err, r', [])
         | (Inr data, r') \<Rightarrow>
             (case (if not_data data then None else data) of
                None \<Rightarrow>
                  (case on_miss e now session_id user_id namespace recent_messages_limit of
                     (res, log) \<Rightarrow> (res, r', log))
              | Some stored \<Rightarrow>
                  (case parse_working_memory now session_id namespace
                          recent_messages_limit stored of
                     Inl err \<Rightarrow> (Inl err, r', [])
                   | Inr working_memory \<Rightarrow> (Inr (Some working_memory), r', []))))"

text \<open>
  The whole function. Its result is \<open>Inl\<close> when an exception reaches the caller and
  \<open>Inr\<close> when it returns.
\<close>

definition get_working_memory ::
  "env \<Rightarrow> redis \<Rightarrow> datetime \<Rightarrow> string \<Rightarrow> string option \<Rightarrow> string option \<Rightarrow> int option
     \<Rightarrow> (error + WorkingMemory option) \<times> redis \<times> log_entry list" where
  "get_working_memory e r now session_id user_id namespace recent_messages_limit =
     (case get_working_memory_try e r now session_id user_id namespace
             recent_messages_limit of
        (Inl err, r', log) \<Rightarrow> (Inr None, r', log @ [Error_getting session_id err])
      | (Inr res, r', log) \<Rightarrow> (Inr res, r', log))"

subsection \<open>Notions used to state the properties\<close>

text \<open>
  The candidates of a call of \<open>get_working_memory\<close>: the messages decoded from the stored
  document when the key holds one, the messages parsed from the search result when it
  holds nothing; none when the read, the decoding or the search fails.
\<close>

definition candidate_messages ::
  "env \<Rightarrow> redis \<Rightarrow> string \<Rightarrow> string option \<Rightarrow> string option \<Rightarrow> int option
     \<Rightarrow> MemoryMessage list" where
  "candidate_messages e r session_id user_id namespace recent_messages_limit =
     (case fst (redis_get r (working_memory_key e session_id user_id namespace)) of
        Inl err \<Rightarrow> []
      | Inr data \<Rightarrow>
          (case (if not_data data then None else data) of
             None \<Rightarrow>
               (case search_long_term_memories e
                       (search_args session_id user_id namespace recent_messages_limit) of
                  Inl err \<Rightarrow> []
                | Inr results \<Rightarrow>
                    (case fst (convert_memories (str_lower e) results) of
                       Inl err \<Rightarrow> []
                     | Inr ms \<Rightarrow> ms))
           | Some stored \<Rightarrow>
               (case ebind (json_loads stored) load_messages of
                  Inl err \<Rightarrow> []
                | Inr ms \<Rightarrow> ms)))"

text \<open>An instant cut to its whole second, towards the epoch.\<close>

definition whole_second :: "datetime \<Rightarrow> datetime" where
  "whole_second dt =
     (if 0 \<le> dt then dt div 1000000 else - ((- dt) div 1000000)) * 1000000"

text \<open>
  The instants less than \<open>2^34\<close> seconds from the epoch (the years 1426 to 2513): there
  the double of \<open>timestamp()\<close> is fine enough for \<open>int\<close> to give the whole second.
\<close>

definition seconds_exact :: "datetime \<Rightarrow> bool" where
  "seconds_exact dt = (\<bar>dt\<bar> < 17179869184000000)"

subsection \<open>Example inputs\<close>

definition example_records :: "MemoryRecord list" where
  "example_records =
     [\<lparr>mem_id = ''m1'', mem_text = ''User: hi'', mem_created_at = 100000000,
       mem_persisted_at = Some 150000000\<rparr>,
      \<lparr>mem_id = ''m2'', mem_text = ''no separator here'', mem_created_at = 100500000,
       mem_persisted_at = None\<rparr>,
      \<lparr>mem_id = ''m3'', mem_text = ''assistant: hello: there'', mem_created_at = 101000000,
       mem_persisted_at = None\<rparr>]"

text \<open>
  The lower-casing of ASCII text, where \<open>str.lower\<close> changes the letters \<open>A\<close> to \<open>Z\<close> and
  nothing else. The texts of the examples are ASCII.
\<close>

definition ascii_lower_char :: "char \<Rightarrow> char" where
  "ascii_lower_char c =
     (let n = (of_char c :: nat) in if 65 \<le> n \<and> n \<le> 90 then char_of (n + 32) else c)"

definition ascii_lower :: "string \<Rightarrow> string" where
  "ascii_lower s = map ascii_lower_char s"

text \<open>A search that returns the first records up to its cap, and a search that fails.\<close>

definition example_env :: env where
  "example_env =
     \<lparr>working_memory_key =
        (\<lambda>s u n. ''working_memory:'' @ (case n of None \<Rightarrow> [] | Some x \<Rightarrow> x) @ '':''
                    @ (case u of None \<Rightarrow> [] | Some x \<Rightarrow> x) @ '':'' @ s),
      sessions_key = (\<lambda>n. ''sessions:'' @ (case n of None \<Rightarrow> [] | Some x \<Rightarrow> x)),
      index_all_messages_in_long_term_memory = True,
      search_long_term_memories = (\<lambda>q. Inr (take (nat (q_limit q)) example_records)),
      str_lower = ascii_lower\<rparr>"

definition failing_search_env :: env where
  "failing_search_env = example_env\<lparr>search_long_term_memories := (\<lambda>q. Inl SearchError)\<rparr>"

text \<open>A search that finds only the record without a separator.\<close>

definition malformed_search_env :: env where
  "malformed_search_env =
     example_env\<lparr>search_long_term_memories := (\<lambda>q. Inr [example_records ! 1])\<rparr>"

text \<open>A search that returns the three records whatever its cap.\<close>

definition over_returning_env :: env where
  "over_returning_env =
     example_env\<lparr>search_long_term_memories := (\<lambda>q. Inr example_records)\<rparr>"

text \<open>What the three records are reconstructed to at the instant \<open>7000000\<close>.\<close>

definition example_reconstructed :: WorkingMemory where
  "example_reconstructed =
     \<lparr>wm_messages =
        [\<lparr>msg_id = ''m1'', msg_role = ''user'', msg_content = ''hi'',
          msg_created_at = 100000000, msg_persisted_at = Some 150000000\<rparr>,
         \<lparr>msg_id = ''m3'', msg_role = ''assistant'', msg_content = ''hello: there'',
          msg_created_at = 101000000, msg_persisted_at = None\<rparr>],
      wm_memories = [], wm_context = Some [], wm_user_id = None, wm_tokens = 0,
      wm_session_id = ''s1'', wm_namespace = None, wm_ttl_seconds = None, wm_data = [],
      wm_long_term_memory_strategy = default_strategy, wm_last_accessed = 7000000,
      wm_created_at = 150000000, wm_updated_at = 7000000\<rparr>"

text \<open>
  What the over-returning search is reconstructed to with a limit of one message: the
  later of the two messages, which has no \<open>persisted_at\<close>.
\<close>

definition example_cut :: WorkingMemory where
  "example_cut =
     \<lparr>wm_messages =
        [\<lparr>msg_id = ''m3'', msg_role = ''assistant'', msg_content = ''hello: there'',
          msg_created_at = 101000000, msg_persisted_at = None\<rparr>],
      wm_memories = [], wm_context = Some [], wm_user_id = None, wm_tokens = 0,
      wm_session_id = ''s1'', wm_namespace = None, wm_ttl_seconds = None, wm_data = [],
      wm_long_term_memory_strategy = default_strategy, wm_last_accessed = 7000000,
      wm_created_at = 7000000, wm_updated_at = 7000000\<rparr>"

text \<open>A server with no string key and an index of five sessions; and the same, down.\<close>

definition example_redis :: redis where
  "example_redis =
     \<lparr>up = True, strings = (\<lambda>k. None),
      zsets = (\<lambda>k. if k = ''sessions:'' then [''s1'', ''s2'', ''s3'', ''s4'', ''s5''] else []),
      sent = []\<rparr>"

definition example_redis_down :: redis where
  "example_redis_down = example_redis\<lparr>up := False\<rparr>"

definition example_messages :: "MemoryMessage list" where
  "example_messages =
     [\<lparr>msg_id = ''a'', msg_role = ''user'', msg_content = ''one'', msg_created_at = 3000000,
       msg_persisted_at = None\<rparr>,
      \<lparr>msg_id = ''b'', msg_role = ''assistant'', msg_content = ''two'',
       msg_created_at = 1000000, msg_persisted_at = Some 1200000\<rparr>,
      \<lparr>msg_id = ''c'', msg_role = ''user'', msg_content = ''three'', msg_created_at = 2000000,
       msg_persisted_at = None\<rparr>]"

text \<open>
  A server whose key for session \<open>s1\<close> holds a document written for another session,
  namespace and user, with most optional fields missing; and one whose key holds bytes
  that are not JSON.
\<close>

definition example_payload :: json where
  "example_payload =
     JObj [(''messages'', JArr (map message_dump example_messages)),
           (''session_id'', JStr ''stale''), (''namespace'', JStr ''elsewhere''),
           (''user_id'', JStr ''u9''), (''last_accessed'', JInt 1), (''created_at'', JInt 1),
           (''updated_at'', JInt 2)]"

definition example_redis_stored :: redis where
  "example_redis_stored =
     example_redis\<lparr>strings :=
       (\<lambda>k. if k = ''working_memory:ns:u1:s1'' then Some (Encoded example_payload, None)
            else None)\<rparr>"

text \<open>What a read of that key returns for session \<open>s1\<close> with a limit of two messages.\<close>

definition example_read :: WorkingMemory where
  "example_read =
     \<lparr>wm_messages = [example_messages ! 2, example_messages ! 0], wm_memories = [],
      wm_context = None, wm_user_id = Some ''u9'', wm_tokens = 0, wm_session_id = ''s1'',
      wm_namespace = Some ''ns'', wm_ttl_seconds = None, wm_data = [],
      wm_long_term_memory_strategy = default_strategy, wm_last_accessed = 1000000,
      wm_created_at = 1000000, wm_updated_at = 2000000\<rparr>"

definition example_redis_garbage :: redis where
  "example_redis_garbage =
     example_redis\<lparr>strings :=
       (\<lambda>k. if k = ''working_memory:ns:u1:s1'' then Some (Raw ''{not json'', None)
            else None)\<rparr>"

text \<open>A valid document created one and a half seconds after the epoch.\<close>

definition example_document :: WorkingMemory where
  "example_document =
     \<lparr>wm_messages = example_messages,
      wm_memories = [\<lparr>mem_id = ''r1'', mem_text = ''likes tea'', mem_created_at = 1000000,
                      mem_persisted_at = None\<rparr>],
      wm_context = Some ''ctx'', wm_user_id = Some ''u1'', wm_tokens = 7,
      wm_session_id = ''s1'', wm_namespace = Some ''ns'', wm_ttl_seconds = None,
      wm_data = [(''k'', JInt 1)], wm_long_term_memory_strategy = default_strategy,
      wm_last_accessed = 1500000, wm_created_at = 1500000, wm_updated_at = 1500000\<rparr>"

text \<open>The same document with a memory record that has no id.\<close>

definition example_document_without_id :: WorkingMemory where
  "example_document_without_id =
     example_document\<lparr>wm_memories :=
       wm_memories example_document
         @ [\<lparr>mem_id = [], mem_text = ''x'', mem_created_at = 0, mem_persisted_at = None\<rparr>]\<rparr>"

section \<open>Properties\<close>

subsection \<open>Sequencing\<close>

lemma ebind_Inr: "ebind m f = Inr y \<longleftrightarrow> (\<exists>x. m = Inr x \<and> f x = Inr y)"
  by (cases m) (simp_all add: ebind_def)

lemma ebind_Inr_simp: "ebind (Inr x) f = f x"
  by (simp add: ebind_def)

lemma ebind_Inl_simp: "ebind (Inl e) f = Inl e"
  by (simp add: ebind_def)

subsection \<open>Listing sessions\<close>

text \<open>For a limit of at least one, the range query is the page that starts at the offset.\<close>

lemma zrange_page:
  assumes "0 \<le> offset" and "1 \<le> limit"
  shows "zrange xs offset (offset + limit - 1) = take (nat limit) (drop (nat offset) xs)"
  using assms by (auto simp: zrange_def Let_def nat_diff_distrib min_def)

lemma list_sessions_page:
  assumes "up r" and "0 \<le> offset" and "1 \<le> limit"
  shows "fst (list_sessions e r limit offset namespace user_id) =
           Inr (int (length (zsets r (sessions_key e namespace))),
                take (nat limit) (drop (nat offset) (zsets r (sessions_key e namespace))))"
  using assms by (simp add: list_sessions_def redis_zcard_zrange_def Let_def zrange_page)

lemma list_sessions_two_of_five:
  "fst (list_sessions example_env example_redis 2 0 None None) = Inr (5, [''s1'', ''s2''])
   \<and> fst (list_sessions example_env example_redis 2 4 None None) = Inr (5, [''s5''])"
  by (simp add: list_sessions_def redis_zcard_zrange_def example_env_def example_redis_def
      zrange_def Let_def)

text \<open>
  Claim C8: for every limit \<open>\<ge> 0\<close> and offset \<open>\<ge> 0\<close>, \<open>list_sessions\<close> returns the
  cardinality of the index and at most \<open>limit\<close> identifiers, those at the positions
  \<open>offset\<close> to \<open>offset + limit - 1\<close>.

  The code computes \<open>end = offset + limit - 1\<close>. With \<open>limit = 0\<close> and \<open>offset = 0\<close> this
  is \<open>-1\<close>, which \<open>ZRANGE\<close> reads as the last member: against the index of five sessions
  the call returns all five identifiers, where the claim (and the docstring, "Maximum
  number of sessions to return") allows none. For a limit of at least one the page is
  the claimed one (\<open>list_sessions_page\<close>, \<open>list_sessions_two_of_five\<close>).
\<close>

theorem list_sessions_limit_zero_returns_all:
  "fst (list_sessions example_env example_redis 0 0 None None)
     = Inr (5, [''s1'', ''s2'', ''s3'', ''s4'', ''s5''])"
  by (simp add: list_sessions_def redis_zcard_zrange_def example_env_def example_redis_def
      zrange_def Let_def)

text \<open>
  Claim C9: the \<open>user_id\<close> argument of \<open>list_sessions\<close> has no effect. Two calls that
  differ only in it return the same count and identifiers, and leave the same state.
\<close>

theorem list_sessions_ignores_user_id:
  "list_sessions e r limit offset namespace user_id1
     = list_sessions e r limit offset namespace user_id2"
  by (simp add: list_sessions_def)

subsection \<open>Writing\<close>

lemma check_memory_ids_empty_id:
  "\<exists>m \<in> set ms. mem_id m = [] \<Longrightarrow>
   check_memory_ids ms = Inl (ValueError ''All memory records in working memory must have an ID'')"
  by (induction ms) auto

lemma check_memory_ids_ok:
  "\<forall>m \<in> set ms. mem_id m \<noteq> [] \<Longrightarrow> check_memory_ids ms = Inr ()"
  by (induction ms) auto

text \<open>
  Claim C2: for a document with at least one memory record whose id is empty,
  \<open>set_working_memory\<close> raises the validation error (the \<open>ValueError\<close> of the id check,
  which the specification calls \<open>ValidationError\<close>), no command is sent to the store and
  the store is left as it was: the state returned is the state given, whose \<open>sent\<close>
  lists the commands and whose \<open>strings\<close> holds the value under the session's key. This
  holds whether or not the server answers.
\<close>

theorem set_working_memory_rejects_empty_id:
  assumes "\<exists>m \<in> set (wm_memories working_memory). mem_id m = []"
  shows "set_working_memory e r now working_memory =
           (Inl (ValueError ''All memory records in working memory must have an ID''), r, [])"
  using check_memory_ids_empty_id[OF assms] by (simp add: set_working_memory_def)

theorem set_working_memory_rejects_empty_id_witness:
  "(\<exists>m \<in> set (wm_memories example_document_without_id). mem_id m = [])
   \<and> set_working_memory example_env example_redis 5000000 example_document_without_id =
       (Inl (ValueError ''All memory records in working memory must have an ID''),
        example_redis, [])"
proof -
  have h: "\<exists>m \<in> set (wm_memories example_document_without_id). mem_id m = []"
    by (simp add: example_document_without_id_def example_document_def)
  show ?thesis
    using h set_working_memory_rejects_empty_id[OF h] by blast
qed

subsection \<open>Reconstruction: parsing the long-term records\<close>

lemma str_contains_sublist: "str_contains sep s \<longleftrightarrow> sublist sep s"
  by (induction s) (auto simp: sublist_Cons_right)

lemma split_once_None: "split_once sep s = None \<longleftrightarrow> \<not> sublist sep s"
  by (induction s) (auto simp: sublist_Cons_right)



lemma convert_memories_skip:
  assumes "split_once '': '' (mem_text m) = None"
  shows "convert_memories lower (m # rs) =
           (fst (convert_memories lower rs),
            Warning_skipping_malformed (mem_id m) (mem_text m) # snd (convert_memories lower rs))"
proof -
  from assms have "\<not> str_contains '': '' (mem_text m)"
    by (simp add: str_contains_sublist split_once_None)
  then show ?thesis by (simp add: case_prod_unfold)
qed

lemma convert_memories_keep:
  assumes "split_once '': '' (mem_text m) = Some (role, content)"
      and "fst (convert_memories lower rs) = Inr ms"
  shows "convert_memories lower (m # rs) =
           (Inr (\<lparr>msg_id = mem_id m, msg_role = lower role, msg_content = content,
                  msg_created_at = mem_created_at m, msg_persisted_at = mem_persisted_at m\<rparr> # ms),
            snd (convert_memories lower rs))"
proof -
  from assms(1) have c: "str_contains '': '' (mem_text m)"
    using split_once_None[of "'': ''" "mem_text m"] by (simp add: str_contains_sublist)
  have s: "str_split1 '': '' (mem_text m) = [role, content]"
    using assms(1) by (simp add: str_split1_def)
  obtain log where r: "convert_memories lower rs = (Inr ms, log)"
    using assms(2) by (cases "convert_memories lower rs") simp
  show ?thesis using c s r by simp
qed

lemma convert_memories_messages:
  "fst (convert_memories lower rs) = Inr (List.map_filter (message_of lower) rs)"
proof (induction rs)
  case Nil
  show ?case by (simp add: map_filter_simps)
next
  case (Cons m rs)
  show ?case
  proof (cases "split_once '': '' (mem_text m)")
    case None
    then show ?thesis
      using Cons.IH by (simp only: convert_memories_skip[OF None]) (simp add: map_filter_simps message_of_def)
  next
    case (Some ab)
    obtain role content where ab: "ab = (role, content)" by (cases ab)
    from Some ab have s: "split_once '': '' (mem_text m) = Some (role, content)" by simp
    show ?thesis
      by (simp only: convert_memories_keep[OF s Cons.IH]) (simp add: map_filter_simps message_of_def s)
  qed
qed





subsection \<open>Reconstruction: the document\<close>

lemma order_messages_no_cut:
  assumes "case limit of None \<Rightarrow> True | Some n \<Rightarrow> n = 0 \<or> int (length ms) \<le> n"
  shows "order_messages limit ms = sort_key msg_created_at (rev ms)"
  using assms by (auto simp: order_messages_def sort_by_reverse_def Let_def split: option.splits)

lemma order_messages_cut:
  assumes "0 < n"
  shows "order_messages (Some n) ms =
           drop (length ms - nat n) (sort_key msg_created_at (rev ms))"
proof (cases "int (length ms) > n")
  case True
  with assms have "slice_index (rev (sort_key msg_created_at (rev ms))) n = nat n"
    by (simp add: slice_index_def Let_def min_def)
  with True assms show ?thesis
    by (simp add: order_messages_def sort_by_reverse_def Let_def slice_to_def rev_take)
next
  case False
  with assms show ?thesis
    by (simp add: order_messages_def sort_by_reverse_def Let_def)
qed

lemma order_messages_drop:
  "\<exists>j. order_messages limit ms = drop j (sort_key msg_created_at (rev ms))"
proof -
  let ?S = "sort_key msg_created_at (rev ms)"
  have cut: "rev (slice_to (rev ?S) n) = drop (length ?S - slice_index (rev ?S) n) ?S" for n
    by (simp add: slice_to_def rev_take)
  have keep: "?S = drop 0 ?S" by simp
  show ?thesis
  proof (cases limit)
    case None
    then have "order_messages limit ms = drop 0 ?S"
      by (simp add: order_messages_def sort_by_reverse_def Let_def)
    then show ?thesis by blast
  next
    case (Some n)
    show ?thesis
    proof (cases "n \<noteq> 0 \<and> int (length ms) > n")
      case True
      with Some have "order_messages limit ms = rev (slice_to (rev ?S) n)"
        by (simp add: order_messages_def sort_by_reverse_def Let_def)
      with cut[of n] show ?thesis by metis
    next
      case False
      with Some have "order_messages limit ms = drop 0 ?S"
        by (auto simp: order_messages_def sort_by_reverse_def Let_def)
      then show ?thesis by blast
    qed
  qed
qed

lemma order_messages_sorted: "sorted (map msg_created_at (order_messages limit ms))"
proof -
  obtain j where "order_messages limit ms = drop j (sort_key msg_created_at (rev ms))"
    using order_messages_drop by blast
  then show ?thesis by (simp add: drop_map[symmetric] sorted_wrt_drop)
qed

lemma order_messages_subset: "set (order_messages limit ms) \<subseteq> set ms"
proof -
  obtain j where "order_messages limit ms = drop j (sort_key msg_created_at (rev ms))"
    using order_messages_drop by blast
  moreover have "set (drop j (sort_key msg_created_at (rev ms)))
      \<subseteq> set (sort_key msg_created_at (rev ms))"
    by (rule set_drop_subset)
  ultimately show ?thesis by simp
qed

lemma map_filter_length: "length (List.map_filter f xs) \<le> length xs"
  by (simp add: List.map_filter_def)

lemma reconstruct_produces:
  assumes "search_long_term_memories e (search_args session_id user_id namespace limit) = Inr results"
    and "List.map_filter (message_of (str_lower e)) results \<noteq> []"
  shows "fst (reconstruct_working_memory_from_long_term e now session_id user_id namespace limit) =
     Inr (Some (let messages = order_messages limit (List.map_filter (message_of (str_lower e)) results);
                created = (case messages of [] \<Rightarrow> now
                           | m # _ \<Rightarrow> (case msg_persisted_at m of Some p \<Rightarrow> p | None \<Rightarrow> now))
            in \<lparr>wm_messages = messages, wm_memories = [],
                wm_context = Some [], wm_user_id = user_id, wm_tokens = 0,
                wm_session_id = session_id, wm_namespace = namespace,
                wm_ttl_seconds = None, wm_data = [],
                wm_long_term_memory_strategy = default_strategy,
                wm_last_accessed = now, wm_created_at = created,
                wm_updated_at = now\<rparr>))"
proof -
  obtain log where c: "convert_memories (str_lower e) results
        = (Inr (List.map_filter (message_of (str_lower e)) results), log)"
    using convert_memories_messages[of "str_lower e" results]
    by (cases "convert_memories (str_lower e) results") simp
  from assms(2) have "results \<noteq> []" by (auto simp: map_filter_simps)
  with assms(2) show ?thesis
    unfolding reconstruct_working_memory_from_long_term_def reconstruct_try_def assms(1)
    by (simp add: c Let_def)
qed

lemma reconstruct_Some_search:
  assumes "fst (reconstruct_working_memory_from_long_term e now session_id user_id namespace limit) = Inr (Some doc)"
  shows "\<exists>results. search_long_term_memories e (search_args session_id user_id namespace limit) = Inr results"
  using assms
  by (cases "search_long_term_memories e (search_args session_id user_id namespace limit)")
     (simp_all add: reconstruct_working_memory_from_long_term_def reconstruct_try_def)

lemma reconstruct_try_Some:
  assumes "search_long_term_memories e (search_args session_id user_id namespace limit) = Inr results"
    and "fst (reconstruct_working_memory_from_long_term e now session_id user_id namespace limit) = Inr (Some doc)"
  shows "List.map_filter (message_of (str_lower e)) results \<noteq> [] \<and>
     doc = (let messages = order_messages limit (List.map_filter (message_of (str_lower e)) results);
                created = (case messages of [] \<Rightarrow> now
                           | m # _ \<Rightarrow> (case msg_persisted_at m of Some p \<Rightarrow> p | None \<Rightarrow> now))
            in \<lparr>wm_messages = messages, wm_memories = [],
                wm_context = Some [], wm_user_id = user_id, wm_tokens = 0,
                wm_session_id = session_id, wm_namespace = namespace,
                wm_ttl_seconds = None, wm_data = [],
                wm_long_term_memory_strategy = default_strategy,
                wm_last_accessed = now, wm_created_at = created,
                wm_updated_at = now\<rparr>)"
proof -
  obtain log where c: "convert_memories (str_lower e) results
        = (Inr (List.map_filter (message_of (str_lower e)) results), log)"
    using convert_memories_messages[of "str_lower e" results]
    by (cases "convert_memories (str_lower e) results") simp
  from assms(2) show ?thesis
    unfolding reconstruct_working_memory_from_long_term_def reconstruct_try_def assms(1)
    by (auto simp: c Let_def split: if_splits)
qed

text \<open>
  Claim C6: when no message survives parsing, that is when no record of the search
  result has a text with \<open>": "\<close> (the empty result included), the reconstruction returns
  \<open>None\<close>, not a document without messages.
\<close>

theorem reconstruction_without_messages_is_absent:
  assumes "search_long_term_memories e (search_args session_id user_id namespace limit) = Inr results"
    and "\<forall>m \<in> set results. \<not> sublist '': '' (mem_text m)"
  shows "fst (reconstruct_working_memory_from_long_term e now session_id user_id namespace limit) = Inr None"
proof -
  have "\<forall>m \<in> set results. message_of (str_lower e) m = None"
    using assms(2) by (simp add: message_of_def split_once_None)
  then have "List.map_filter (message_of (str_lower e)) results = []"
    by (simp add: List.map_filter_def filter_empty_conv)
  with convert_memories_messages[of "str_lower e" results]
  obtain log where c: "convert_memories (str_lower e) results = (Inr [], log)"
    by (cases "convert_memories (str_lower e) results") simp
  show ?thesis
    unfolding reconstruct_working_memory_from_long_term_def reconstruct_try_def assms(1)
    by (simp add: c)
qed

theorem reconstruction_without_messages_is_absent_witness:
  "search_long_term_memories malformed_search_env (search_args ''s1'' None None (Some 5))
     = Inr [example_records ! 1]
   \<and> fst (reconstruct_working_memory_from_long_term malformed_search_env 7000000 ''s1''
            None None (Some 5)) = Inr None"
proof -
  have h1: "search_long_term_memories malformed_search_env
              (search_args ''s1'' None None (Some 5)) = Inr [example_records ! 1]"
    by (simp add: malformed_search_env_def example_env_def)
  have "\<not> str_contains '': '' (mem_text (example_records ! 1))"
    by (simp add: example_records_def)
  then have h2: "\<forall>m \<in> set [example_records ! 1]. \<not> sublist '': '' (mem_text m)"
    by (simp add: str_contains_sublist)
  show ?thesis
    using h1 reconstruction_without_messages_is_absent[OF h1 h2, of 7000000] by blast
qed

text \<open>
  Claim C7, as amended: a document produced by reconstruction has no memories, the empty
  context, no data, and \<open>updated_at\<close> and \<open>last_accessed\<close> equal to the time of the call.
  Its messages are surviving messages in ascending order of \<open>created_at\<close>, and its
  \<open>created_at\<close> is the \<open>persisted_at\<close> of the first of them, the earliest message of the
  document, or the time of the call when that message has no \<open>persisted_at\<close>. When the
  limit cuts nothing (no limit, a limit of zero, or no more surviving messages than the
  limit) the document holds all surviving messages, and its first message is the
  earliest surviving one. The claim as stated takes the
  earliest surviving message in every case; the code takes \<open>messages[0]\<close> after the cut
  of lines 370-371.
\<close>

theorem reconstructed_document_fields:
  assumes "fst (reconstruct_working_memory_from_long_term e now session_id user_id namespace
                  limit) = Inr (Some doc)"
  shows "wm_memories doc = [] \<and> wm_context doc = Some [] \<and> wm_data doc = []
       \<and> wm_updated_at doc = now \<and> wm_last_accessed doc = now
       \<and> (\<forall>m rest. wm_messages doc = m # rest
             \<longrightarrow> wm_created_at doc = (case msg_persisted_at m of Some p \<Rightarrow> p | None \<Rightarrow> now))
       \<and> sorted (map msg_created_at (wm_messages doc))
       \<and> (\<exists>results survivors.
             search_long_term_memories e (search_args session_id user_id namespace limit)
               = Inr results
           \<and> fst (convert_memories (str_lower e) results) = Inr survivors
           \<and> survivors \<noteq> []
           \<and> set (wm_messages doc) \<subseteq> set survivors
           \<and> ((case limit of None \<Rightarrow> True | Some n \<Rightarrow> n = 0 \<or> int (length survivors) \<le> n)
                \<longrightarrow> mset (wm_messages doc) = mset survivors))"
proof -
  from reconstruct_Some_search[OF assms] obtain results where
    s: "search_long_term_memories e (search_args session_id user_id namespace limit) = Inr results"
    by blast
  let ?parsed = "List.map_filter (message_of (str_lower e)) results"
  let ?msgs = "order_messages limit ?parsed"
  from reconstruct_try_Some[OF s assms]
  have ne: "?parsed \<noteq> []" and doc: "doc = (let messages = ?msgs;
                created = (case messages of [] \<Rightarrow> now
                           | m # _ \<Rightarrow> (case msg_persisted_at m of Some p \<Rightarrow> p | None \<Rightarrow> now))
            in \<lparr>wm_messages = messages, wm_memories = [],
                wm_context = Some [], wm_user_id = user_id, wm_tokens = 0,
                wm_session_id = session_id, wm_namespace = namespace,
                wm_ttl_seconds = None, wm_data = [],
                wm_long_term_memory_strategy = default_strategy,
                wm_last_accessed = now, wm_created_at = created,
                wm_updated_at = now\<rparr>)"
    by blast+
  have m: "wm_messages doc = ?msgs" unfolding doc by (simp add: Let_def)
  have fields: "wm_memories doc = [] \<and> wm_context doc = Some [] \<and> wm_data doc = []
     \<and> wm_updated_at doc = now \<and> wm_last_accessed doc = now"
    unfolding doc by (simp add: Let_def)
  have created: "\<forall>m rest. wm_messages doc = m # rest
             \<longrightarrow> wm_created_at doc = (case msg_persisted_at m of Some p \<Rightarrow> p | None \<Rightarrow> now)"
    unfolding doc by (simp add: Let_def)
  have srt: "sorted (map msg_created_at (wm_messages doc))"
    unfolding m by (rule order_messages_sorted)
  have sub: "set (wm_messages doc) \<subseteq> set ?parsed"
    unfolding m by (rule order_messages_subset)
  have all: "mset (wm_messages doc) = mset ?parsed"
    if "case limit of None \<Rightarrow> True | Some n \<Rightarrow> n = 0 \<or> int (length ?parsed) \<le> n"
    unfolding m order_messages_no_cut[OF that] by simp
  have conv: "fst (convert_memories (str_lower e) results) = Inr ?parsed"
    by (rule convert_memories_messages)
  from s conv ne sub all
  have "\<exists>results survivors.
             search_long_term_memories e (search_args session_id user_id namespace limit)
               = Inr results
           \<and> fst (convert_memories (str_lower e) results) = Inr survivors
           \<and> survivors \<noteq> []
           \<and> set (wm_messages doc) \<subseteq> set survivors
           \<and> ((case limit of None \<Rightarrow> True | Some n \<Rightarrow> n = 0 \<or> int (length survivors) \<le> n)
                \<longrightarrow> mset (wm_messages doc) = mset survivors)"
    by blast
  with fields created srt show ?thesis by blast
qed

theorem reconstructed_document_fields_witness:
  "fst (reconstruct_working_memory_from_long_term over_returning_env 7000000 ''s1''
          None None (Some 1)) = Inr (Some example_cut)
   \<and> wm_memories example_cut = [] \<and> wm_context example_cut = Some []
   \<and> wm_data example_cut = []
   \<and> wm_updated_at example_cut = 7000000 \<and> wm_last_accessed example_cut = 7000000
   \<and> wm_messages example_cut = [wm_messages example_reconstructed ! 1]
   \<and> wm_created_at example_cut
       = (case msg_persisted_at (wm_messages example_reconstructed ! 1) of
            Some p \<Rightarrow> p | None \<Rightarrow> 7000000)
   \<and> sorted (map msg_created_at (wm_messages example_cut))
   \<and> fst (reconstruct_working_memory_from_long_term example_env 7000000 ''s1''
            None None None) = Inr (Some example_reconstructed)
   \<and> wm_created_at example_reconstructed = 150000000
   \<and> wm_created_at example_reconstructed
       = (case msg_persisted_at (wm_messages example_reconstructed ! 0) of
            Some p \<Rightarrow> p | None \<Rightarrow> 7000000)
   \<and> (\<exists>survivors. fst (convert_memories (str_lower example_env) example_records) = Inr survivors
         \<and> mset (wm_messages example_reconstructed) = mset survivors)"
proof -
  have h1: "fst (reconstruct_working_memory_from_long_term over_returning_env 7000000 ''s1''
                   None None (Some 1)) = Inr (Some example_cut)"
    by code_simp
  have h2: "fst (reconstruct_working_memory_from_long_term example_env 7000000 ''s1''
                   None None None) = Inr (Some example_reconstructed)"
    by code_simp
  have s2: "search_long_term_memories example_env (search_args ''s1'' None None None)
              = Inr example_records"
    by code_simp
  have c2: "wm_created_at example_reconstructed = 150000000"
    by (simp add: example_reconstructed_def)
  have m1: "wm_messages example_cut = [wm_messages example_reconstructed ! 1]"
    by (simp add: example_cut_def example_reconstructed_def)
  have m2: "wm_messages example_reconstructed
              = wm_messages example_reconstructed ! 0 # [wm_messages example_reconstructed ! 1]"
    by (simp add: example_reconstructed_def)
  note t1 = reconstructed_document_fields[OF h1]
  note t2 = reconstructed_document_fields[OF h2]
  from t2 obtain results survivors where
    r: "search_long_term_memories example_env (search_args ''s1'' None None None) = Inr results"
    and c: "fst (convert_memories (str_lower example_env) results) = Inr survivors"
    and m: "mset (wm_messages example_reconstructed) = mset survivors"
    by auto
  from r s2 have "results = example_records" by simp
  with c m have ex: "\<exists>survivors. fst (convert_memories (str_lower example_env) example_records)
                       = Inr survivors
         \<and> mset (wm_messages example_reconstructed) = mset survivors"
    by blast
  from t1 m1 have k1: "wm_created_at example_cut
       = (case msg_persisted_at (wm_messages example_reconstructed ! 1) of
            Some p \<Rightarrow> p | None \<Rightarrow> 7000000)"
    by blast
  from t2 m2 have k2: "wm_created_at example_reconstructed
       = (case msg_persisted_at (wm_messages example_reconstructed ! 0) of
            Some p \<Rightarrow> p | None \<Rightarrow> 7000000)"
    by blast
  from h1 h2 c2 m1 k1 k2 t1 t2 ex show ?thesis by blast
qed

text \<open>
  The claim C7 as stated is false where the limit cuts: the search returns the three
  records for a limit of one, two messages survive parsing, the earlier one persisted
  at \<open>150000000\<close>; the document keeps the later one, which has no \<open>persisted_at\<close>, and
  its \<open>created_at\<close> is the time of the call, \<open>7000000\<close>.
\<close>

theorem reconstructed_created_at_after_cut:
  "search_long_term_memories over_returning_env (search_args ''s1'' None None (Some 1))
     = Inr example_records
   \<and> fst (convert_memories (str_lower over_returning_env) example_records)
       = Inr [\<lparr>msg_id = ''m1'', msg_role = ''user'', msg_content = ''hi'',
                msg_created_at = 100000000, msg_persisted_at = Some 150000000\<rparr>,
              \<lparr>msg_id = ''m3'', msg_role = ''assistant'', msg_content = ''hello: there'',
                msg_created_at = 101000000, msg_persisted_at = None\<rparr>]
   \<and> fst (reconstruct_working_memory_from_long_term over_returning_env 7000000 ''s1''
            None None (Some 1)) = Inr (Some example_cut)
   \<and> wm_created_at example_cut = 7000000"
  by code_simp

subsection \<open>Reading\<close>

lemma dict_get_Inr: "dict_get d k = Inr v \<Longrightarrow> \<exists>kvs. d = JObj kvs \<and> v = map_of kvs k"
  by (cases d) simp_all

lemma get_when_down:
  assumes "\<not> up r"
  shows "get_working_memory_try e r now session_id user_id namespace limit =
           (Inl ConnectionError, send r [GET (working_memory_key e session_id user_id namespace)], [])"
  using assms by (simp add: get_working_memory_try_def redis_get_def Let_def)

lemma get_on_hit:
  assumes "up r"
    and "strings r (working_memory_key e session_id user_id namespace) = Some (stored, ttl)"
    and "\<not> not_data (Some stored)"
  shows "get_working_memory_try e r now session_id user_id namespace limit =
           (case parse_working_memory now session_id namespace limit stored of
              Inl err \<Rightarrow> (Inl err, send r [GET (working_memory_key e session_id user_id namespace)], [])
            | Inr working_memory \<Rightarrow>
                (Inr (Some working_memory),
                 send r [GET (working_memory_key e session_id user_id namespace)], []))"
  using assms by (simp add: get_working_memory_try_def redis_get_def Let_def)

lemma get_on_miss:
  assumes "up r"
    and "not_data (map_option fst (strings r (working_memory_key e session_id user_id namespace)))"
  shows "get_working_memory_try e r now session_id user_id namespace limit =
           (fst (on_miss e now session_id user_id namespace limit),
            send r [GET (working_memory_key e session_id user_id namespace)],
            snd (on_miss e now session_id user_id namespace limit))"
  using assms by (simp add: get_working_memory_try_def redis_get_def case_prod_unfold Let_def)

lemma reconstruct_returns:
  "\<exists>res log. reconstruct_working_memory_from_long_term e now session_id user_id namespace limit
      = (Inr res, log)"
  by (cases "reconstruct_try e now session_id user_id namespace limit" rule: prod.exhaust)
     (auto simp: reconstruct_working_memory_from_long_term_def split: sum.splits)

text \<open>
  Claim C3: \<open>get_working_memory\<close> never raises. Whatever the arguments and the state, it
  returns; when the body of its \<open>try\<close> raises, the exception is logged and the result
  is \<open>None\<close>. The store read raises when the server does not answer, the parse raises
  on bytes that are not JSON, and both end this way. The reconstruction returns too,
  and an exception of the search is logged there and turned into \<open>None\<close>.
\<close>

theorem get_working_memory_never_raises:
  "(\<exists>res r' log. get_working_memory e r now session_id user_id namespace limit = (Inr res, r', log))
   \<and> (\<forall>err. fst (get_working_memory_try e r now session_id user_id namespace limit) = Inl err
         \<longrightarrow> fst (get_working_memory e r now session_id user_id namespace limit) = Inr None
             \<and> Error_getting session_id err
                 \<in> set (snd (snd (get_working_memory e r now session_id user_id namespace limit))))
   \<and> (\<not> up r
         \<longrightarrow> fst (get_working_memory_try e r now session_id user_id namespace limit)
               = Inl ConnectionError)
   \<and> (\<forall>s ttl. up r
         \<and> strings r (working_memory_key e session_id user_id namespace) = Some (Raw s, ttl)
         \<and> s \<noteq> []
         \<longrightarrow> fst (get_working_memory_try e r now session_id user_id namespace limit)
               = Inl JSONDecodeError)
   \<and> (\<exists>res log. reconstruct_working_memory_from_long_term e now session_id user_id namespace
                    limit = (Inr res, log))
   \<and> (\<forall>err. search_long_term_memories e (search_args session_id user_id namespace limit)
               = Inl err
         \<longrightarrow> fst (reconstruct_working_memory_from_long_term e now session_id user_id namespace
                    limit) = Inr None
             \<and> Error_reconstructing session_id err
                 \<in> set (snd (reconstruct_working_memory_from_long_term e now session_id user_id
                              namespace limit)))"
proof (intro conjI allI impI)
  obtain a r' log where t: "get_working_memory_try e r now session_id user_id namespace limit = (a, r', log)"
    by (cases "get_working_memory_try e r now session_id user_id namespace limit")
  show "\<exists>res r' log. get_working_memory e r now session_id user_id namespace limit = (Inr res, r', log)"
    by (cases a) (simp_all add: get_working_memory_def t)
  show "fst (get_working_memory e r now session_id user_id namespace limit) = Inr None"
    if "fst (get_working_memory_try e r now session_id user_id namespace limit) = Inl err" for err
    using that by (simp add: get_working_memory_def t)
  show "Error_getting session_id err
           \<in> set (snd (snd (get_working_memory e r now session_id user_id namespace limit)))"
    if "fst (get_working_memory_try e r now session_id user_id namespace limit) = Inl err" for err
    using that by (simp add: get_working_memory_def t)
  show "fst (get_working_memory_try e r now session_id user_id namespace limit) = Inl ConnectionError"
    if "\<not> up r" using get_when_down[OF that] by simp
  show "fst (get_working_memory_try e r now session_id user_id namespace limit) = Inl JSONDecodeError"
    if "up r \<and> strings r (working_memory_key e session_id user_id namespace) = Some (Raw s, ttl) \<and> s \<noteq> []"
    for s ttl
  proof -
    from that have "\<not> not_data (Some (Raw s))" by simp
    from get_on_hit[OF _ _ this] that show ?thesis
      by (simp add: parse_working_memory_def
        ebind_Inr_simp ebind_Inl_simp)
  qed
  show "\<exists>res log. reconstruct_working_memory_from_long_term e now session_id user_id namespace limit = (Inr res, log)"
    by (rule reconstruct_returns)
  show "fst (reconstruct_working_memory_from_long_term e now session_id user_id namespace limit) = Inr None"
    if "search_long_term_memories e (search_args session_id user_id namespace limit) = Inl err" for err
    using that by (simp add: reconstruct_working_memory_from_long_term_def reconstruct_try_def)
  show "Error_reconstructing session_id err
                 \<in> set (snd (reconstruct_working_memory_from_long_term e now session_id user_id
                              namespace limit))"
    if "search_long_term_memories e (search_args session_id user_id namespace limit) = Inl err" for err
    using that by (simp add: reconstruct_working_memory_from_long_term_def reconstruct_try_def)
qed

theorem get_working_memory_never_raises_witness:
  "fst (get_working_memory example_env example_redis_down 7000000 ''s1'' (Some ''u1'')
          (Some ''ns'') None) = Inr None
   \<and> Error_getting ''s1'' ConnectionError
        \<in> set (snd (snd (get_working_memory example_env example_redis_down 7000000 ''s1''
                           (Some ''u1'') (Some ''ns'') None)))
   \<and> fst (get_working_memory example_env example_redis_garbage 7000000 ''s1'' (Some ''u1'')
          (Some ''ns'') None) = Inr None
   \<and> Error_getting ''s1'' JSONDecodeError
        \<in> set (snd (snd (get_working_memory example_env example_redis_garbage 7000000 ''s1''
                           (Some ''u1'') (Some ''ns'') None)))
   \<and> fst (reconstruct_working_memory_from_long_term failing_search_env 7000000 ''s1''
            None None None) = Inr None
   \<and> Error_reconstructing ''s1'' SearchError
        \<in> set (snd (reconstruct_working_memory_from_long_term failing_search_env 7000000
                      ''s1'' None None None))"
proof -
  have down: "\<not> up example_redis_down"
    by (simp add: example_redis_down_def)
  have garbage: "up example_redis_garbage
      \<and> strings example_redis_garbage
            (working_memory_key example_env ''s1'' (Some ''u1'') (Some ''ns''))
          = Some (Raw ''{not json'', None)
      \<and> ''{not json'' \<noteq> []"
    by (simp add: example_redis_garbage_def example_redis_def example_env_def)
  have search: "search_long_term_memories failing_search_env (search_args ''s1'' None None None)
                  = Inl SearchError"
    by (simp add: failing_search_env_def)
  from down get_working_memory_never_raises[of example_env example_redis_down 7000000 "''s1''" "Some ''u1''" "Some ''ns''" None]
  have 1: "fst (get_working_memory example_env example_redis_down 7000000 ''s1'' (Some ''u1'')
          (Some ''ns'') None) = Inr None
   \<and> Error_getting ''s1'' ConnectionError
        \<in> set (snd (snd (get_working_memory example_env example_redis_down 7000000 ''s1''
                           (Some ''u1'') (Some ''ns'') None)))"
    by blast
  from garbage get_working_memory_never_raises[of example_env example_redis_garbage 7000000 "''s1''" "Some ''u1''" "Some ''ns''" None]
  have 2: "fst (get_working_memory example_env example_redis_garbage 7000000 ''s1'' (Some ''u1'')
          (Some ''ns'') None) = Inr None
   \<and> Error_getting ''s1'' JSONDecodeError
        \<in> set (snd (snd (get_working_memory example_env example_redis_garbage 7000000 ''s1''
                           (Some ''u1'') (Some ''ns'') None)))"
    by blast
  from search get_working_memory_never_raises[of failing_search_env example_redis 7000000 "''s1''" None None None]
  have 3: "fst (reconstruct_working_memory_from_long_term failing_search_env 7000000 ''s1''
            None None None) = Inr None
   \<and> Error_reconstructing ''s1'' SearchError
        \<in> set (snd (reconstruct_working_memory_from_long_term failing_search_env 7000000
                      ''s1'' None None None))"
    by blast
  from 1 2 3 show ?thesis by blast
qed

lemma parse_working_memory_Inr:
  assumes "parse_working_memory now session_id namespace limit stored = Inr doc"
  shows "\<exists>kvs loaded. stored = Encoded (JObj kvs)
           \<and> wm_session_id doc = session_id \<and> wm_namespace doc = namespace
           \<and> opt_str_field (map_of kvs ''user_id'') = Inr (wm_user_id doc)
           \<and> load_messages (JObj kvs) = Inr loaded
           \<and> wm_messages doc = recent_messages limit loaded"
proof -
  from assms obtain d where d: "json_loads stored = Inr d"
    by (auto simp: parse_working_memory_def ebind_Inr)
  then have st: "stored = Encoded d" by (cases stored) simp_all
  from assms d obtain v where "dict_get d ''context'' = Inr v"
    by (auto simp: parse_working_memory_def ebind_Inr Let_def)
  then obtain kvs where k: "d = JObj kvs" by (auto dest: dict_get_Inr)
  from assms show ?thesis
    unfolding parse_working_memory_def st k WorkingMemory_new_def Let_def
    by (auto simp: ebind_Inr)
qed

text \<open>
  Claim C10: on a store hit, the document that \<open>get_working_memory\<close> returns has the
  \<open>session_id\<close> and the \<open>namespace\<close> of the call, whatever the stored dict holds under
  these two keys, and its \<open>user_id\<close> is the one the stored dict holds.
\<close>

theorem get_working_memory_scoping_from_arguments:
  assumes "up r"
    and "strings r (working_memory_key e session_id user_id namespace) = Some (stored, ttl)"
    and "\<not> not_data (Some stored)"
    and "fst (get_working_memory e r now session_id user_id namespace limit) = Inr (Some doc)"
  shows "wm_session_id doc = session_id \<and> wm_namespace doc = namespace
         \<and> (\<exists>kvs. stored = Encoded (JObj kvs)
               \<and> opt_str_field (map_of kvs ''user_id'') = Inr (wm_user_id doc))"
proof -
  from assms(4) have "parse_working_memory now session_id namespace limit stored = Inr doc"
    unfolding get_working_memory_def get_on_hit[OF assms(1-3)]
    by (auto split: sum.splits)
  from parse_working_memory_Inr[OF this] show ?thesis by blast
qed

theorem get_working_memory_scoping_from_arguments_witness:
  "up example_redis_stored
   \<and> strings example_redis_stored (working_memory_key example_env ''s1'' (Some ''u1'') (Some ''ns''))
       = Some (Encoded example_payload, None)
   \<and> \<not> not_data (Some (Encoded example_payload))
   \<and> fst (get_working_memory example_env example_redis_stored 7000000 ''s1'' (Some ''u1'')
            (Some ''ns'') (Some 2)) = Inr (Some example_read)
   \<and> wm_session_id example_read = ''s1'' \<and> wm_namespace example_read = Some ''ns''
   \<and> (\<exists>kvs. Encoded example_payload = Encoded (JObj kvs)
          \<and> opt_str_field (map_of kvs ''user_id'') = Inr (wm_user_id example_read))
   \<and> dict_get example_payload ''session_id'' = Inr (Some (JStr ''stale''))
   \<and> dict_get example_payload ''namespace'' = Inr (Some (JStr ''elsewhere''))
   \<and> wm_user_id example_read = Some ''u9''"
proof -
  have h1: "up example_redis_stored"
    by (simp add: example_redis_stored_def example_redis_def)
  have h2: "strings example_redis_stored
              (working_memory_key example_env ''s1'' (Some ''u1'') (Some ''ns''))
            = Some (Encoded example_payload, None)"
    by (simp add: example_redis_stored_def example_redis_def example_env_def)
  have h3: "\<not> not_data (Some (Encoded example_payload))" by simp
  have h4: "fst (get_working_memory example_env example_redis_stored 7000000 ''s1''
                   (Some ''u1'') (Some ''ns'') (Some 2)) = Inr (Some example_read)"
    by code_simp
  have p: "dict_get example_payload ''session_id'' = Inr (Some (JStr ''stale''))
     \<and> dict_get example_payload ''namespace'' = Inr (Some (JStr ''elsewhere''))
     \<and> wm_user_id example_read = Some ''u9''"
    by (simp add: example_payload_def example_read_def)
  show ?thesis
    using h1 h2 h3 h4 p get_working_memory_scoping_from_arguments[OF h1 h2 h3 h4] by blast
qed

subsection \<open>The limit on recent messages\<close>

lemma latest_window:
  fixes f :: "'a \<Rightarrow> int"
  assumes "sorted (map f S)" and "mset S = mset cands"
  shows "length (drop (length S - k) S) \<le> k
       \<and> sorted (map f (drop (length S - k) S))
       \<and> mset (drop (length S - k) S) \<subseteq># mset cands
       \<and> length (drop (length S - k) S) = min k (length cands)
       \<and> (\<forall>old \<in># mset cands - mset (drop (length S - k) S).
            \<forall>kept \<in> set (drop (length S - k) S). f old \<le> f kept)"
proof -
  let ?j = "length S - k"
  have len: "length S = length cands" using assms(2) by (rule mset_eq_length)
  have split: "mset cands = mset (take ?j S) + mset (drop ?j S)"
    unfolding assms(2)[symmetric] by (simp flip: mset_append)
  have 1: "length (drop ?j S) \<le> k" by simp
  have 2: "sorted (map f (drop ?j S))"
    using assms(1) by (simp add: drop_map[symmetric] sorted_wrt_drop)
  have 3: "mset (drop ?j S) \<subseteq># mset cands" unfolding split by simp
  have 4: "length (drop ?j S) = min k (length cands)" using len by auto
  have diff: "mset cands - mset (drop ?j S) = mset (take ?j S)" unfolding split by simp
  have "sorted (map f (take ?j S) @ map f (drop ?j S))"
    using assms(1) by (simp flip: map_append)
  then have "\<forall>x \<in> set (take ?j S). \<forall>y \<in> set (drop ?j S). f x \<le> f y"
    by (auto simp: sorted_append)
  then have 5: "\<forall>old \<in># mset cands - mset (drop ?j S). \<forall>kept \<in> set (drop ?j S). f old \<le> f kept"
    unfolding diff by simp
  from 1 2 3 4 5 show ?thesis by blast
qed

lemma recent_messages_cut:
  assumes "0 < n"
  shows "recent_messages (Some n) ms = drop (length ms - nat n) (sort_key msg_created_at ms)"
proof -
  have "slice_index (sort_key msg_created_at ms) (- n) = length ms - nat n"
    using assms by (auto simp: slice_index_def Let_def max_def)
  with assms show ?thesis
    by (simp add: recent_messages_def slice_from_def sort_by_def)
qed

lemma get_Some_cases:
  assumes "fst (get_working_memory e r now session_id user_id namespace limit) = Inr (Some doc)"
  shows "(\<exists>stored ttl. up r
            \<and> strings r (working_memory_key e session_id user_id namespace) = Some (stored, ttl)
            \<and> \<not> not_data (Some stored)
            \<and> parse_working_memory now session_id namespace limit stored = Inr doc)
       \<or> (up r
            \<and> not_data (map_option fst (strings r (working_memory_key e session_id user_id namespace)))
            \<and> fst (reconstruct_working_memory_from_long_term e now session_id user_id namespace limit)
                = Inr (Some doc))"
proof (cases "up r")
  case False
  with assms show ?thesis
    by (simp add: get_working_memory_def get_when_down)
next
  case True
  let ?key = "working_memory_key e session_id user_id namespace"
  show ?thesis
  proof (cases "not_data (map_option fst (strings r ?key))")
    case miss: True
    obtain res log where rc: "reconstruct_working_memory_from_long_term e now session_id user_id namespace limit = (Inr res, log)"
      using reconstruct_returns by blast
    from assms have "res = Some doc"
      unfolding get_working_memory_def get_on_miss[OF True miss]
      by (auto simp: on_miss_def rc Let_def split: if_splits option.splits)
    with rc True miss show ?thesis by simp
  next
    case hit: False
    then obtain stored ttl where st: "strings r ?key = Some (stored, ttl)"
      by (cases "strings r ?key") auto
    with hit have nd: "\<not> not_data (Some stored)" by simp
    from assms have "parse_working_memory now session_id namespace limit stored = Inr doc"
      unfolding get_working_memory_def get_on_hit[OF True st nd]
      by (auto split: sum.splits)
    with True st nd show ?thesis by blast
  qed
qed

lemma ebind_assoc: "ebind (ebind m f) g = ebind m (\<lambda>x. ebind (f x) g)"
  by (cases m) (simp_all add: ebind_def)

lemma WorkingMemory_new_messages:
  "WorkingMemory_new (g msgs) memories context user_id tokens session_id namespace
       ttl_seconds data strat last_accessed created_at updated_at =
   ebind (WorkingMemory_new msgs memories context user_id tokens session_id namespace
       ttl_seconds data strat last_accessed created_at updated_at)
     (\<lambda>d. Inr (d\<lparr>wm_messages := g (wm_messages d)\<rparr>))"
  by (auto simp: WorkingMemory_new_def ebind_def split: sum.splits)

lemma parse_working_memory_limit:
  "parse_working_memory now session_id namespace limit stored =
     ebind (parse_working_memory now session_id namespace None stored)
       (\<lambda>d. Inr (d\<lparr>wm_messages := recent_messages limit (wm_messages d)\<rparr>))"
proof -
  have none: "recent_messages None = (\<lambda>ms. ms)"
    by (rule ext) (simp add: recent_messages_def)
  show ?thesis
    unfolding parse_working_memory_def Let_def none ebind_assoc
    by (simp only: WorkingMemory_new_messages[of "recent_messages limit", symmetric])
qed

lemma get_hit_with_limit:
  assumes "up r"
    and "strings r (working_memory_key e session_id user_id namespace) = Some (stored, ttl)"
    and "\<not> not_data (Some stored)"
    and "fst (get_working_memory e r now session_id user_id namespace None) = Inr (Some doc0)"
  shows "fst (get_working_memory e r now session_id user_id namespace limit)
           = Inr (Some (doc0\<lparr>wm_messages := recent_messages limit (wm_messages doc0)\<rparr>))
       \<and> candidate_messages e r session_id user_id namespace limit = wm_messages doc0"
proof -
  from assms(4) have p0: "parse_working_memory now session_id namespace None stored = Inr doc0"
    unfolding get_working_memory_def get_on_hit[OF assms(1-3)]
    by (auto split: sum.splits)
  have p: "parse_working_memory now session_id namespace limit stored
             = Inr (doc0\<lparr>wm_messages := recent_messages limit (wm_messages doc0)\<rparr>)"
    by (subst parse_working_memory_limit) (simp add: p0 ebind_Inr_simp)
  from parse_working_memory_Inr[OF p0] obtain kvs loaded where
    k: "stored = Encoded (JObj kvs)" and l: "load_messages (JObj kvs) = Inr loaded"
    and m: "wm_messages doc0 = recent_messages None loaded" by blast
  have c: "candidate_messages e r session_id user_id namespace limit = wm_messages doc0"
    using assms(1-3)
    by (simp add: candidate_messages_def redis_get_def k l m recent_messages_def ebind_Inr_simp)
  have "fst (get_working_memory e r now session_id user_id namespace limit)
           = Inr (Some (doc0\<lparr>wm_messages := recent_messages limit (wm_messages doc0)\<rparr>))"
    unfolding get_working_memory_def get_on_hit[OF assms(1-3)] p by simp
  with c show ?thesis by blast
qed

lemma get_miss_reconstructs:
  assumes "up r"
    and "not_data (map_option fst (strings r (working_memory_key e session_id user_id namespace)))"
    and "index_all_messages_in_long_term_memory e"
    and "candidate_messages e r session_id user_id namespace limit \<noteq> []"
  shows "\<exists>doc. fst (get_working_memory e r now session_id user_id namespace limit) = Inr (Some doc)
           \<and> wm_messages doc
               = order_messages limit (candidate_messages e r session_id user_id namespace limit)"
proof -
  let ?args = "search_args session_id user_id namespace limit"
  from assms(1,2,4) obtain results where s: "search_long_term_memories e ?args = Inr results"
    by (cases "search_long_term_memories e ?args")
       (simp_all add: candidate_messages_def redis_get_def)
  let ?parsed = "List.map_filter (message_of (str_lower e)) results"
  have c: "candidate_messages e r session_id user_id namespace limit = ?parsed"
    using assms(1,2) by (simp add: candidate_messages_def redis_get_def s convert_memories_messages)
  with assms(4) have ne: "?parsed \<noteq> []" by simp
  note rp = reconstruct_produces[OF s ne, of now]
  obtain res log where rc: "reconstruct_working_memory_from_long_term e now session_id user_id namespace limit = (res, log)"
    by (cases "reconstruct_working_memory_from_long_term e now session_id user_id namespace limit")
  from rp rc obtain doc where res: "res = Inr (Some doc)"
    and m: "wm_messages doc = order_messages limit ?parsed"
    by (simp add: Let_def)
  have "fst (get_working_memory e r now session_id user_id namespace limit) = Inr (Some doc)"
    unfolding get_working_memory_def get_on_miss[OF assms(1,2)]
    by (simp add: on_miss_def assms(3) rc res)
  with m c show ?thesis by simp
qed

text \<open>
  Claim C4: a call of \<open>get_working_memory\<close> with a limit \<open>n > 0\<close> that returns a document,
  from the store or from reconstruction, returns at most \<open>n\<close> messages, in ascending
  order of \<open>created_at\<close>. They are taken from the candidates, as many of them as there
  are up to \<open>n\<close>, and every candidate left out is no later than every message kept: the
  messages are the \<open>n\<close> latest candidates. Both paths do return such a document. On a
  store hit, when the read without a limit returns a document, the read with the limit
  returns the same document with the last \<open>n\<close> of its messages sorted by \<open>created_at\<close>.
  On a miss with reconstruction enabled and at least one candidate, a document is
  returned whose messages are the last \<open>n\<close> of the candidates sorted by \<open>created_at\<close>.
\<close>

theorem get_working_memory_recent_messages:
  assumes "0 < n"
  shows "(\<forall>doc. fst (get_working_memory e r now session_id user_id namespace (Some n))
                  = Inr (Some doc)
            \<longrightarrow> length (wm_messages doc) \<le> nat n
              \<and> sorted (map msg_created_at (wm_messages doc))
              \<and> mset (wm_messages doc)
                   \<subseteq># mset (candidate_messages e r session_id user_id namespace (Some n))
              \<and> length (wm_messages doc)
                   = min (nat n)
                       (length (candidate_messages e r session_id user_id namespace (Some n)))
              \<and> (\<forall>old \<in># mset (candidate_messages e r session_id user_id namespace (Some n))
                             - mset (wm_messages doc).
                   \<forall>kept \<in> set (wm_messages doc). msg_created_at old \<le> msg_created_at kept))
       \<and> (\<forall>stored ttl doc0.
             up r
           \<and> strings r (working_memory_key e session_id user_id namespace) = Some (stored, ttl)
           \<and> \<not> not_data (Some stored)
           \<and> fst (get_working_memory e r now session_id user_id namespace None)
                = Inr (Some doc0)
           \<longrightarrow> candidate_messages e r session_id user_id namespace (Some n) = wm_messages doc0
             \<and> fst (get_working_memory e r now session_id user_id namespace (Some n))
                 = Inr (Some (doc0\<lparr>wm_messages :=
                                 drop (length (wm_messages doc0) - nat n)
                                   (sort_key msg_created_at (wm_messages doc0))\<rparr>)))
       \<and> (up r
           \<and> not_data (map_option fst
                 (strings r (working_memory_key e session_id user_id namespace)))
           \<and> index_all_messages_in_long_term_memory e
           \<and> candidate_messages e r session_id user_id namespace (Some n) \<noteq> []
           \<longrightarrow> (\<exists>doc. fst (get_working_memory e r now session_id user_id namespace (Some n))
                        = Inr (Some doc)
                 \<and> wm_messages doc
                     = drop (length (candidate_messages e r session_id user_id namespace
                                       (Some n)) - nat n)
                         (sort_key msg_created_at
                            (rev (candidate_messages e r session_id user_id namespace
                                    (Some n))))))"
proof (intro conjI allI impI)
  fix doc
  assume got: "fst (get_working_memory e r now session_id user_id namespace (Some n))
                 = Inr (Some doc)"
  let ?key = "working_memory_key e session_id user_id namespace"
  let ?cands = "candidate_messages e r session_id user_id namespace (Some n)"
  have "\<exists>S. sorted (map msg_created_at S) \<and> mset S = mset ?cands
          \<and> wm_messages doc = drop (length S - nat n) S"
    using get_Some_cases[OF got]
  proof (elim disjE exE conjE)
    fix stored ttl
    assume up: "up r" and st: "strings r ?key = Some (stored, ttl)"
      and nd: "\<not> not_data (Some stored)"
      and p: "parse_working_memory now session_id namespace (Some n) stored = Inr doc"
    from parse_working_memory_Inr[OF p] obtain kvs loaded where
      k: "stored = Encoded (JObj kvs)" and l: "load_messages (JObj kvs) = Inr loaded"
      and m: "wm_messages doc = recent_messages (Some n) loaded" by blast
    have c: "?cands = loaded"
      using up st nd
      by (simp add: candidate_messages_def redis_get_def k l ebind_Inr_simp)
    have "wm_messages doc = drop (length (sort_key msg_created_at loaded) - nat n)
                              (sort_key msg_created_at loaded)"
      unfolding m recent_messages_cut[OF assms] by simp
    then show ?thesis unfolding c
      by (intro exI[of _ "sort_key msg_created_at loaded"]) simp
  next
    assume up: "up r" and miss: "not_data (map_option fst (strings r ?key))"
      and rc: "fst (reconstruct_working_memory_from_long_term e now session_id user_id
                      namespace (Some n)) = Inr (Some doc)"
    from reconstruct_Some_search[OF rc] obtain results where
      s: "search_long_term_memories e (search_args session_id user_id namespace (Some n))
            = Inr results"
      by blast
    let ?parsed = "List.map_filter (message_of (str_lower e)) results"
    from reconstruct_try_Some[OF s rc]
    have "wm_messages doc = order_messages (Some n) ?parsed"
      by (simp add: Let_def)
    then have m: "wm_messages doc
                    = drop (length ?parsed - nat n) (sort_key msg_created_at (rev ?parsed))"
      by (simp add: order_messages_cut[OF assms])
    have c: "?cands = ?parsed"
      using up miss
      by (simp add: candidate_messages_def redis_get_def s convert_memories_messages)
    show ?thesis unfolding c
      by (intro exI[of _ "sort_key msg_created_at (rev ?parsed)"]) (simp add: m)
  qed
  then obtain S where S: "sorted (map msg_created_at S)" "mset S = mset ?cands"
    and w: "wm_messages doc = drop (length S - nat n) S" by blast
  note lw = latest_window[OF S, of "nat n", folded w]
  from lw show "length (wm_messages doc) \<le> nat n" by blast
  from lw show "sorted (map msg_created_at (wm_messages doc))" by blast
  from lw show "mset (wm_messages doc) \<subseteq># mset ?cands" by blast
  from lw show "length (wm_messages doc) = min (nat n) (length ?cands)" by blast
  from lw show "\<forall>old \<in># mset ?cands - mset (wm_messages doc).
                  \<forall>kept \<in> set (wm_messages doc). msg_created_at old \<le> msg_created_at kept"
    by blast
next
  fix stored ttl doc0
  assume h: "up r
           \<and> strings r (working_memory_key e session_id user_id namespace) = Some (stored, ttl)
           \<and> \<not> not_data (Some stored)
           \<and> fst (get_working_memory e r now session_id user_id namespace None)
                = Inr (Some doc0)"
  then have a: "up r"
    and b: "strings r (working_memory_key e session_id user_id namespace) = Some (stored, ttl)"
    and c: "\<not> not_data (Some stored)"
    and d: "fst (get_working_memory e r now session_id user_id namespace None) = Inr (Some doc0)"
    by blast+
  note g = get_hit_with_limit[OF a b c d, of "Some n"]
  from g show "candidate_messages e r session_id user_id namespace (Some n) = wm_messages doc0"
    by blast
  from g show "fst (get_working_memory e r now session_id user_id namespace (Some n))
                 = Inr (Some (doc0\<lparr>wm_messages :=
                                 drop (length (wm_messages doc0) - nat n)
                                   (sort_key msg_created_at (wm_messages doc0))\<rparr>))"
    by (simp add: recent_messages_cut[OF assms])
next
  assume h: "up r
           \<and> not_data (map_option fst
                 (strings r (working_memory_key e session_id user_id namespace)))
           \<and> index_all_messages_in_long_term_memory e
           \<and> candidate_messages e r session_id user_id namespace (Some n) \<noteq> []"
  then have a: "up r"
    and b: "not_data (map_option fst
                 (strings r (working_memory_key e session_id user_id namespace)))"
    and c: "index_all_messages_in_long_term_memory e"
    and d: "candidate_messages e r session_id user_id namespace (Some n) \<noteq> []"
    by blast+
  from get_miss_reconstructs[OF a b c d, of now]
  show "\<exists>doc. fst (get_working_memory e r now session_id user_id namespace (Some n))
                        = Inr (Some doc)
                 \<and> wm_messages doc
                     = drop (length (candidate_messages e r session_id user_id namespace
                                       (Some n)) - nat n)
                         (sort_key msg_created_at
                            (rev (candidate_messages e r session_id user_id namespace
                                    (Some n))))"
    by (simp add: order_messages_cut[OF assms])
qed

theorem get_working_memory_recent_messages_witness:
  "(0::int) < 2
   \<and> up example_redis_stored
   \<and> strings example_redis_stored
         (working_memory_key example_env ''s1'' (Some ''u1'') (Some ''ns''))
       = Some (Encoded example_payload, None)
   \<and> \<not> not_data (Some (Encoded example_payload))
   \<and> fst (get_working_memory example_env example_redis_stored 7000000 ''s1'' (Some ''u1'')
            (Some ''ns'') None) = Inr (Some (example_read\<lparr>wm_messages := example_messages\<rparr>))
   \<and> candidate_messages example_env example_redis_stored ''s1'' (Some ''u1'') (Some ''ns'')
        (Some 2) = example_messages
   \<and> fst (get_working_memory example_env example_redis_stored 7000000 ''s1'' (Some ''u1'')
            (Some ''ns'') (Some 2)) = Inr (Some example_read)
   \<and> wm_messages example_read = [example_messages ! 2, example_messages ! 0]
   \<and> length (wm_messages example_read) \<le> nat 2
   \<and> sorted (map msg_created_at (wm_messages example_read))
   \<and> mset (wm_messages example_read) \<subseteq># mset example_messages
   \<and> (0::int) < 1
   \<and> up example_redis
   \<and> not_data (map_option fst
        (strings example_redis (working_memory_key over_returning_env ''s1'' None None)))
   \<and> index_all_messages_in_long_term_memory over_returning_env
   \<and> candidate_messages over_returning_env example_redis ''s1'' None None (Some 1)
       = wm_messages example_reconstructed
   \<and> fst (get_working_memory over_returning_env example_redis 7000000 ''s1'' None None
            (Some 1)) = Inr (Some example_cut)
   \<and> wm_messages example_cut = [wm_messages example_reconstructed ! 1]
   \<and> length (wm_messages example_cut) \<le> nat 1
   \<and> sorted (map msg_created_at (wm_messages example_cut))
   \<and> mset (wm_messages example_cut) \<subseteq># mset (wm_messages example_reconstructed)"
proof -
  have n2: "(0::int) < 2" and n1: "(0::int) < 1" by simp_all
  have a1: "up example_redis_stored"
    by (simp add: example_redis_stored_def example_redis_def)
  have a2: "strings example_redis_stored
              (working_memory_key example_env ''s1'' (Some ''u1'') (Some ''ns''))
            = Some (Encoded example_payload, None)"
    by (simp add: example_redis_stored_def example_redis_def example_env_def)
  have a3: "\<not> not_data (Some (Encoded example_payload))" by simp
  have a4: "fst (get_working_memory example_env example_redis_stored 7000000 ''s1''
                   (Some ''u1'') (Some ''ns'') None)
              = Inr (Some (example_read\<lparr>wm_messages := example_messages\<rparr>))"
    by code_simp
  have a5: "fst (get_working_memory example_env example_redis_stored 7000000 ''s1''
                   (Some ''u1'') (Some ''ns'') (Some 2)) = Inr (Some example_read)"
    by code_simp
  have a6: "wm_messages example_read = [example_messages ! 2, example_messages ! 0]"
    by (simp add: example_read_def)
  have b1: "up example_redis" by (simp add: example_redis_def)
  have b2: "not_data (map_option fst
              (strings example_redis (working_memory_key over_returning_env ''s1'' None None)))"
    by (simp add: example_redis_def)
  have b3: "index_all_messages_in_long_term_memory over_returning_env"
    by (simp add: over_returning_env_def example_env_def)
  have b4: "candidate_messages over_returning_env example_redis ''s1'' None None (Some 1)
              = wm_messages example_reconstructed"
    by code_simp
  have b5: "fst (get_working_memory over_returning_env example_redis 7000000 ''s1'' None None
                   (Some 1)) = Inr (Some example_cut)"
    by code_simp
  have b6: "wm_messages example_cut = [wm_messages example_reconstructed ! 1]"
    by (simp add: example_cut_def example_reconstructed_def)
  note hit = get_working_memory_recent_messages[OF n2, of example_env example_redis_stored
      7000000 "''s1''" "Some ''u1''" "Some ''ns''"]
  note miss = get_working_memory_recent_messages[OF n1, of over_returning_env example_redis
      7000000 "''s1''" None None]
  from hit a1 a2 a3 a4 have c: "candidate_messages example_env example_redis_stored ''s1''
      (Some ''u1'') (Some ''ns'') (Some 2) = example_messages"
    by auto
  from hit a5 c have w1: "length (wm_messages example_read) \<le> nat 2
     \<and> sorted (map msg_created_at (wm_messages example_read))
     \<and> mset (wm_messages example_read) \<subseteq># mset example_messages"
    by auto
  from miss b5 b4 have w2: "length (wm_messages example_cut) \<le> nat 1
     \<and> sorted (map msg_created_at (wm_messages example_cut))
     \<and> mset (wm_messages example_cut) \<subseteq># mset (wm_messages example_reconstructed)"
    by auto
  from n2 n1 a1 a2 a3 a4 a5 a6 b1 b2 b3 b4 b5 b6 c w1 w2 show ?thesis by blast
qed

subsection \<open>The stored timestamps\<close>

text \<open>
  Less than \<open>2^34\<close> seconds from the epoch the scale is at least \<open>2^19\<close>, more than half
  of \<open>10^6\<close>: rounding to the double cannot reach the next whole second, and \<open>int\<close> of
  the double is the whole second of the instant.
\<close>

lemma round_half_even_bounds:
  assumes "0 < d"
  shows "n div d \<le> round_half_even n d"
    and "round_half_even n d \<le> n div d + 1"
    and "round_half_even n d = n div d + 1 \<Longrightarrow> d \<le> 2 * (n mod d)"
  by (auto simp: round_half_even_def Let_def split: if_splits)

lemma scaled_round_truncates:
  assumes a: "0 \<le> a" and K: "524288 \<le> K"
  shows "round_half_even (a * K) 1000000 div K = a div 1000000"
proof -
  let ?q = "a div 1000000" and ?r = "a mod 1000000"
  let ?n = "a * K"
  let ?s = "?n div 1000000" and ?t = "?n mod 1000000"
  let ?m = "round_half_even ?n 1000000"
  have Kpos: "0 < K" using K by simp
  have r: "0 \<le> ?r" "?r \<le> 999999" by simp_all
  have a_eq: "a = ?q * 1000000 + ?r" by simp
  have n_eq: "?n = (?q * K) * 1000000 + ?r * K"
    by (subst a_eq) (simp only: algebra_simps)
  have rK: "0 \<le> ?r * K" "?r * K \<le> 999999 * K"
    using r Kpos by (simp_all add: mult_right_mono)
  have st: "?n = ?s * 1000000 + ?t" "0 \<le> ?t" "?t < 1000000" by simp_all
  have m1: "?s \<le> ?m" and m2: "?m \<le> ?s + 1" and m3: "?m = ?s + 1 \<Longrightarrow> 1000000 \<le> 2 * ?t"
    using round_half_even_bounds[of 1000000 ?n] by simp_all
  have lo: "?q * K \<le> ?m"
  proof -
    have "?q * K \<le> ?s" using n_eq st rK by linarith
    with m1 show ?thesis by linarith
  qed
  have hi: "?m < ?q * K + K"
  proof (cases "?m = ?s + 1")
    case True
    from m3[OF True] have "500000 \<le> ?t" by linarith
    with n_eq st rK K True show ?thesis by linarith
  next
    case False
    with m1 m2 have "?m = ?s" by linarith
    with n_eq st rK K show ?thesis by linarith
  qed
  have "?m = K * ?q + (?m - K * ?q)" by simp
  moreover have "0 \<le> ?m - K * ?q" using lo by (simp add: mult.commute)
  moreover have "?m - K * ?q < K" using hi by (simp add: mult.commute)
  ultimately show ?thesis by (rule int_div_pos_eq)
qed

lemma binary_scale_at_least:
  assumes "0 \<le> a" and "a < 17179869184000000"
  shows "min (k + fuel) 19 \<le> binary_scale fuel k a"
proof (induction fuel arbitrary: k)
  case 0
  show ?case by simp
next
  case (Suc fuel)
  show ?case
  proof (cases "2 ^ 52 * 1000000 \<le> a * 2 ^ k")
    case True
    have "19 \<le> k"
    proof (rule ccontr)
      assume "\<not> 19 \<le> k"
      then have "k \<le> 18" by simp
      then have "(2::int) ^ k \<le> 2 ^ 18" by (intro power_increasing) simp_all
      with assms(1) have "a * 2 ^ k \<le> a * 2 ^ 18" by (intro mult_left_mono)
      with assms(2) True show False by simp
    qed
    with True show ?thesis by simp
  next
    case False
    with Suc.IH[of "Suc k"] show ?thesis by simp
  qed
qed

lemma timestamp_int_exact:
  assumes "seconds_exact dt"
  shows "timestamp_int dt = (if 0 \<le> dt then dt div 1000000 else - ((- dt) div 1000000))"
proof -
  let ?a = "\<bar>dt\<bar>"
  let ?k = "binary_scale 128 0 ?a"
  have "min (0 + 128) 19 \<le> ?k"
    using assms by (intro binary_scale_at_least) (simp_all add: seconds_exact_def)
  then have "19 \<le> ?k" by simp
  then have "(2::int) ^ 19 \<le> 2 ^ ?k" by (intro power_increasing) simp_all
  then have "524288 \<le> (2::int) ^ ?k" by simp
  then have "round_half_even (?a * 2 ^ ?k) 1000000 div 2 ^ ?k = ?a div 1000000"
    by (intro scaled_round_truncates) simp_all
  then have "timestamp_int dt = sgn dt * (?a div 1000000)"
    by (simp add: timestamp_int_def Let_def)
  then show ?thesis by (auto simp: sgn_if)
qed

lemma fromtimestamp_timestamp_int:
  assumes "seconds_exact dt"
  shows "fromtimestamp (timestamp_int dt) = Inr (whole_second dt)"
proof -
  let ?s = "if 0 \<le> dt then dt div 1000000 else - ((- dt) div 1000000)"
  from assms have "min_timestamp \<le> ?s \<and> ?s \<le> max_timestamp"
    unfolding seconds_exact_def min_timestamp_def max_timestamp_def
    by (auto; linarith)
  then show ?thesis
    unfolding timestamp_int_exact[OF assms] by (simp add: fromtimestamp_def whole_second_def)
qed

text \<open>
  Further from the epoch the double is coarser than a microsecond: the last microsecond
  of the year 9999 is stored as the first second of the year 10000, which
  \<open>fromtimestamp\<close> rejects, and from \<open>2^34\<close> seconds on \<open>.999999\<close> is rounded up.
\<close>

lemma timestamp_int_rounds_up:
  "datetime_ok 253402300799999999
   \<and> timestamp_int 253402300799999999 = 253402300800
   \<and> fromtimestamp 253402300800 = Inl OverflowError
   \<and> timestamp_int 17179869184999999 = 17179869185"
  by code_simp

subsection \<open>Writing, then reading\<close>

lemma MemoryMessage_new_dump: "MemoryMessage_new (message_dump m) = Inr m"
  by (cases "msg_persisted_at m")
     (simp_all add: MemoryMessage_new_def message_dump_def opt_iso_json_def
        ebind_Inr_simp ebind_Inl_simp)

lemma MemoryRecord_new_dump: "MemoryRecord_new (memory_dump m) = Inr m"
  by (cases "mem_persisted_at m")
     (simp_all add: MemoryRecord_new_def memory_dump_def opt_iso_json_def
        ebind_Inr_simp ebind_Inl_simp)

lemma emap_MemoryMessage_new: "emap MemoryMessage_new (map message_dump ms) = Inr ms"
  by (induction ms) (simp_all add: MemoryMessage_new_dump
        ebind_Inr_simp ebind_Inl_simp)

lemma emap_MemoryRecord_new: "emap MemoryRecord_new (map memory_dump ms) = Inr ms"
  by (induction ms) (simp_all add: MemoryRecord_new_dump
        ebind_Inr_simp ebind_Inl_simp)

lemma MemoryStrategyConfig_new_dump: "MemoryStrategyConfig_new (strategy_dump s) = Inr s"
  by (simp add: MemoryStrategyConfig_new_def strategy_dump_def
        ebind_Inr_simp ebind_Inl_simp)

lemma load_messages_wire_form: "load_messages (wire_form W) = Inr (wm_messages W)"
  by (simp add: load_messages_def wire_form_def dict_get_default_def emap_MemoryMessage_new
        ebind_Inr_simp ebind_Inl_simp)

lemma load_memories_wire_form: "load_memories (wire_form W) = Inr (wm_memories W)"
  by (simp add: load_memories_def wire_form_def dict_get_default_def emap_MemoryRecord_new
        ebind_Inr_simp ebind_Inl_simp)

lemma load_strategy_wire_form:
  "load_strategy (wire_form W) = Inr (wm_long_term_memory_strategy W)"
proof -
  have "truthy (strategy_dump (wm_long_term_memory_strategy W))"
    by (simp add: strategy_dump_def)
  then show ?thesis
    by (simp add: load_strategy_def wire_form_def MemoryStrategyConfig_new_dump
        ebind_Inr_simp ebind_Inl_simp)
qed

lemma load_timestamps_wire_form:
  "load_timestamp (wire_form W) ''last_accessed'' later = fromtimestamp (timestamp_int (wm_last_accessed W))"
  "load_timestamp (wire_form W) ''created_at'' later = fromtimestamp (timestamp_int (wm_created_at W))"
  "load_timestamp (wire_form W) ''updated_at'' later = fromtimestamp (timestamp_int (wm_updated_at W))"
  by (simp_all add: load_timestamp_def wire_form_def dict_get_default_def
        ebind_Inr_simp ebind_Inl_simp)

lemma wire_form_fields:
  "dict_get (wire_form W) ''context'' = Inr (Some (opt_str_json (wm_context W)))"
  "dict_get (wire_form W) ''user_id'' = Inr (Some (opt_str_json (wm_user_id W)))"
  "dict_get_default (wire_form W) ''tokens'' (JInt 0) = Inr (JInt (wm_tokens W))"
  "dict_get (wire_form W) ''ttl_seconds'' = Inr (Some (opt_int_json (wm_ttl_seconds W)))"
  "dict_get (wire_form W) ''data'' = Inr (Some (JObj (wm_data W)))"
  by (simp_all add: wire_form_def dict_get_default_def
        ebind_Inr_simp ebind_Inl_simp)

lemma opt_fields_round_trip:
  "opt_str_field (Some (opt_str_json v)) = Inr v"
  "opt_int_field (Some (opt_int_json n)) = Inr n"
  by (cases v; simp add: opt_str_json_def) (cases n; simp add: opt_int_json_def)

lemma data_or_empty_dict: "dict_field (Some (data_or_empty (Some (JObj kvs)))) = Inr kvs"
  by (simp add: data_or_empty_def)

lemma parse_wire_form:
  assumes "seconds_exact (wm_last_accessed W)" "seconds_exact (wm_created_at W)"
    "seconds_exact (wm_updated_at W)"
  shows "parse_working_memory later session_id namespace None (json_dumps (wire_form W)) =
           Inr (W\<lparr>wm_session_id := session_id, wm_namespace := namespace,
                   wm_last_accessed := whole_second (wm_last_accessed W),
                   wm_created_at := whole_second (wm_created_at W),
                   wm_updated_at := whole_second (wm_updated_at W)\<rparr>)"
proof -
  have "parse_working_memory later session_id namespace None (json_dumps (wire_form W)) =
          Inr \<lparr>wm_messages = wm_messages W, wm_memories = wm_memories W,
               wm_context = wm_context W, wm_user_id = wm_user_id W, wm_tokens = wm_tokens W,
               wm_session_id = session_id, wm_namespace = namespace,
               wm_ttl_seconds = wm_ttl_seconds W, wm_data = wm_data W,
               wm_long_term_memory_strategy = wm_long_term_memory_strategy W,
               wm_last_accessed = whole_second (wm_last_accessed W),
               wm_created_at = whole_second (wm_created_at W),
               wm_updated_at = whole_second (wm_updated_at W)\<rparr>"
    by (simp add: parse_working_memory_def json_dumps_def load_messages_wire_form
        load_memories_wire_form load_strategy_wire_form load_timestamps_wire_form
        wire_form_fields opt_fields_round_trip data_or_empty_dict recent_messages_def
        fromtimestamp_timestamp_int[OF assms(1)] fromtimestamp_timestamp_int[OF assms(2)]
        fromtimestamp_timestamp_int[OF assms(3)] WorkingMemory_new_def Let_def
        ebind_Inr_simp ebind_Inl_simp)
  also have "\<dots> = Inr (W\<lparr>wm_session_id := session_id, wm_namespace := namespace,
                   wm_last_accessed := whole_second (wm_last_accessed W),
                   wm_created_at := whole_second (wm_created_at W),
                   wm_updated_at := whole_second (wm_updated_at W)\<rparr>)"
    by (cases W) simp
  finally show ?thesis .
qed

lemma set_when_up:
  assumes "\<forall>m \<in> set (wm_memories D). mem_id m \<noteq> []" and "wm_ttl_seconds D = None" and "up r"
  shows "set_working_memory e r now D =
           (Inr (),
            send (r\<lparr>strings := (strings r)
                     (working_memory_key e (wm_session_id D) (wm_user_id D) (wm_namespace D)
                        \<mapsto> (json_dumps (wire_form (D\<lparr>wm_updated_at := now\<rparr>)), None))\<rparr>)
              [SET (working_memory_key e (wm_session_id D) (wm_user_id D) (wm_namespace D))
                   (json_dumps (wire_form (D\<lparr>wm_updated_at := now\<rparr>)))],
            [Info_set_no_ttl (wm_session_id D)])"
  using assms check_memory_ids_ok[OF assms(1)]
  by (simp add: set_working_memory_def redis_set_def Let_def)

text \<open>
  Claim C1, as amended: for every valid document \<open>D\<close> (each memory record has a
  non-empty id) with no \<open>ttl_seconds\<close>, whose \<open>created_at\<close> and \<open>last_accessed\<close> lie, like
  the time of the write, less than \<open>2^34\<close> seconds from the epoch (the years 1426 to
  2513), \<open>set_working_memory\<close> on a server that answers, followed by
  \<open>get_working_memory\<close> for the session, user and namespace of \<open>D\<close> with no limit,
  returns \<open>D\<close> in every field except the three timestamps: \<open>created_at\<close> and
  \<open>last_accessed\<close> come back cut to whole seconds, and \<open>updated_at\<close> is the time of the
  write cut to whole seconds. The claim as stated, equality in every field but
  \<open>updated_at\<close>, fails: the stored form keeps \<open>int(... .timestamp())\<close>, the whole seconds
  only.
\<close>

theorem set_then_get_round_trip:
  assumes "\<forall>m \<in> set (wm_memories D). mem_id m \<noteq> []"
    and "wm_ttl_seconds D = None"
    and "up r"
    and "seconds_exact (wm_last_accessed D)" and "seconds_exact (wm_created_at D)"
    and "seconds_exact now"
  shows "fst (set_working_memory e r now D) = Inr ()
       \<and> fst (get_working_memory e (fst (snd (set_working_memory e r now D))) later
                (wm_session_id D) (wm_user_id D) (wm_namespace D) None)
           = Inr (Some (D\<lparr>wm_last_accessed := whole_second (wm_last_accessed D),
                          wm_created_at := whole_second (wm_created_at D),
                          wm_updated_at := whole_second now\<rparr>))"
proof -
  let ?key = "working_memory_key e (wm_session_id D) (wm_user_id D) (wm_namespace D)"
  let ?W = "D\<lparr>wm_updated_at := now\<rparr>"
  let ?r1 = "fst (snd (set_working_memory e r now D))"
  note s = set_when_up[OF assms(1-3), of e now]
  have up1: "up ?r1" using assms(3) by (simp add: s send_def)
  have st: "strings ?r1 ?key = Some (json_dumps (wire_form ?W), None)"
    by (simp add: s send_def)
  have nd: "\<not> not_data (Some (json_dumps (wire_form ?W)))" by (simp add: json_dumps_def)
  have p: "parse_working_memory later (wm_session_id D) (wm_namespace D) None (json_dumps (wire_form ?W))
         = Inr (?W\<lparr>wm_session_id := wm_session_id D, wm_namespace := wm_namespace D,
                   wm_last_accessed := whole_second (wm_last_accessed ?W),
                   wm_created_at := whole_second (wm_created_at ?W),
                   wm_updated_at := whole_second (wm_updated_at ?W)\<rparr>)"
    by (rule parse_wire_form) (simp_all add: assms)
  have "fst (get_working_memory e ?r1 later (wm_session_id D) (wm_user_id D) (wm_namespace D) None)
         = Inr (Some (D\<lparr>wm_last_accessed := whole_second (wm_last_accessed D),
                          wm_created_at := whole_second (wm_created_at D),
                          wm_updated_at := whole_second now\<rparr>))"
    unfolding get_working_memory_def get_on_hit[OF up1 st nd] p
    by (cases D) simp
  moreover have "fst (set_working_memory e r now D) = Inr ()" by (simp add: s)
  ultimately show ?thesis by blast
qed

theorem set_then_get_round_trip_witness:
  "wm_ttl_seconds example_document = None \<and> up example_redis
   \<and> seconds_exact (wm_last_accessed example_document)
   \<and> seconds_exact (wm_created_at example_document) \<and> seconds_exact 2000000
   \<and> fst (set_working_memory example_env example_redis 2000000 example_document) = Inr ()
   \<and> fst (get_working_memory example_env
            (fst (snd (set_working_memory example_env example_redis 2000000 example_document)))
            3000000 (wm_session_id example_document) (wm_user_id example_document)
            (wm_namespace example_document) None)
       = Inr (Some (example_document
                     \<lparr>wm_last_accessed := whole_second (wm_last_accessed example_document),
                      wm_created_at := whole_second (wm_created_at example_document),
                      wm_updated_at := whole_second 2000000\<rparr>))"
proof -
  have h1: "\<forall>m \<in> set (wm_memories example_document). mem_id m \<noteq> []"
    by (simp add: example_document_def)
  have h2: "wm_ttl_seconds example_document = None"
    by (simp add: example_document_def)
  have h3: "up example_redis"
    by (simp add: example_redis_def)
  have h4: "seconds_exact (wm_last_accessed example_document)"
    and h5: "seconds_exact (wm_created_at example_document)"
    and h6: "seconds_exact 2000000"
    by (simp_all add: example_document_def seconds_exact_def)
  show ?thesis
    using h2 h3 h4 h5 h6
      set_then_get_round_trip[OF h1 h2 h3 h4 h5 h6, of example_env 3000000]
    by blast
qed

text \<open>
  The claim C1 as stated is false at the example document, whose \<open>created_at\<close> is one
  and a half seconds after the epoch: the write succeeds, and the read returns
  \<open>created_at\<close> (and \<open>last_accessed\<close>) one second after the epoch.
\<close>

theorem set_then_get_truncates_created_at:
  "fst (set_working_memory example_env example_redis 2000000 example_document) = Inr ()
   \<and> wm_ttl_seconds example_document = None
   \<and> fst (get_working_memory example_env
            (fst (snd (set_working_memory example_env example_redis 2000000 example_document)))
            3000000 ''s1'' (Some ''u1'') (Some ''ns'') None)
       = Inr (Some (example_document\<lparr>wm_last_accessed := 1000000, wm_created_at := 1000000,
                                     wm_updated_at := 2000000\<rparr>))
   \<and> wm_created_at example_document = 1500000"
  by code_simp

end
